theory Spec2Isabelle
  imports Complex_Main "HOL-Library.AList"
begin

section \<open>The OpenAPI AI Agents validation client\<close>

text \<open>
  A shallow embedding of \<^verbatim>\<open>examples/integrations/python/openapi_ai_agents_client.py\<close>.
  The client builds a request, hands it to \<^verbatim>\<open>session.request\<close>, classifies the
  answer and copies fields of the JSON reply into a result record. Everything outside the
  file (the remote service, the HTTP library, the YAML and JSON parsers, \<^verbatim>\<open>str\<close> and
  \<^verbatim>\<open>format\<close>) is a parameter of the model, collected in the record \<open>runtime\<close>.
\<close>

subsection \<open>Values\<close>

text \<open>
  The values that travel through the client are what \<^verbatim>\<open>yaml.safe_load\<close> and
  \<^verbatim>\<open>response.json()\<close> produce. A Python dict keeps insertion order, so it is an
  association list; a float is only carried, never computed with.
\<close>

datatype json =
    JNull
  | JBool bool
  | JInt int
  | JFloat real
  | JStr string
  | JList "json list"
  | JObj "(string \<times> json) list"

text \<open>The exceptions (subclasses of \<^verbatim>\<open>Exception\<close>) that can cross the client.\<close>

datatype exn =
    ValueError string
  | KeyError string
  | TypeError
  | AttributeError
  | JSONDecodeError
  | HTTPError string
  | OtherError string

text \<open>\<^verbatim>\<open>json.JSONDecodeError\<close> is a subclass of \<^verbatim>\<open>ValueError\<close>.\<close>

fun is_ValueError :: "exn \<Rightarrow> bool" where
  "is_ValueError (ValueError _) = True"
| "is_ValueError JSONDecodeError = True"
| "is_ValueError _ = False"

text \<open>Python's truth value of an object, as \<^verbatim>\<open>if x:\<close> tests it.\<close>

fun truthy :: "json \<Rightarrow> bool" where
  "truthy JNull = False"
| "truthy (JBool b) = b"
| "truthy (JInt n) = (n \<noteq> 0)"
| "truthy (JFloat x) = (x \<noteq> 0)"
| "truthy (JStr s) = (s \<noteq> [])"
| "truthy (JList xs) = (xs \<noteq> [])"
| "truthy (JObj kvs) = (kvs \<noteq> [])"

text \<open>
  \<^verbatim>\<open>d[key]\<close> with a string key: a dict looks the key up and raises \<^verbatim>\<open>KeyError\<close> when
  it is absent; every other value raises \<^verbatim>\<open>TypeError\<close>.
\<close>

fun subscript :: "json \<Rightarrow> string \<Rightarrow> exn + json" where
  "subscript (JObj kvs) k = (case map_of kvs k of None \<Rightarrow> Inl (KeyError k) | Some v \<Rightarrow> Inr v)"
| "subscript _ k = Inl TypeError"

text \<open>
  \<^verbatim>\<open>d.get(key, default)\<close>: only a dict has the method; on any other value the attribute
  lookup raises \<^verbatim>\<open>AttributeError\<close>. \<open>None\<close> stands for "the default was returned".
\<close>

fun dict_get :: "json \<Rightarrow> string \<Rightarrow> exn + json option" where
  "dict_get (JObj kvs) k = Inr (map_of kvs k)"
| "dict_get _ k = Inl AttributeError"

text \<open>Sequencing of steps that may raise.\<close>

definition bind :: "exn + 'a \<Rightarrow> ('a \<Rightarrow> exn + 'b) \<Rightarrow> exn + 'b" where
  "bind m f = (case m of Inl e \<Rightarrow> Inl e | Inr x \<Rightarrow> f x)"

subsection \<open>The result records\<close>

record ValidationResult =
  valid :: json
  certification_level :: json
  passed :: json
  warnings :: json
  errors :: json

record EstimationResult =
  total_tokens :: json
  compressed_tokens :: json
  model :: json
  daily_cost :: json
  monthly_cost :: json
  annual_cost :: json
  annual_savings :: json
  savings_percentage :: json
  token_breakdown :: json
  optimizations :: json

record ComplianceResult =
  valid :: json
  authorization_readiness :: json
  framework_results :: json
  total_passed :: json
  total_warnings :: json
  total_errors :: json

subsection \<open>The HTTP session and the world outside\<close>

text \<open>
  What the client reads of a \<^verbatim>\<open>requests.Response\<close>: its status, its body text and the
  result of \<^verbatim>\<open>response.json()\<close> (\<open>None\<close> when the body is not JSON and the call
  raises \<^verbatim>\<open>JSONDecodeError\<close>).
\<close>

record response =
  status_code :: int
  response_text :: string
  json :: "json option"

text \<open>The arguments of one \<^verbatim>\<open>session.request(method, url, timeout=..., json=...)\<close> call.\<close>

record request =
  http_method :: string
  url :: string
  timeout :: int
  json :: "json option"

text \<open>
  \<^verbatim>\<open>session.request\<close> either returns a response or raises a
  \<^verbatim>\<open>requests.exceptions.RequestException\<close> (connection failure, timeout, retries
  exhausted), which carries its message. The library raises \<^verbatim>\<open>HTTPError\<close> only from
  \<^verbatim>\<open>raise_for_status\<close>, never from the request itself.
\<close>

datatype outcome = Response response | RequestException string

record Retry =
  total :: int
  backoff_factor :: int
  status_forcelist :: "int list"
  method_whitelist :: "string list"

record HTTPAdapter =
  max_retries :: Retry

record Session =
  adapters :: "(string \<times> HTTPAdapter) list"
  headers :: "(string \<times> string) list"

record OpenAPIAgentsClient =
  api_key :: string
  base_url :: string
  timeout :: int
  session :: Session

text \<open>
  The parts of the run that are not code of the file. \<open>transport\<close> is the remote service
  seen through \<^verbatim>\<open>session.request\<close> (the mounted adapter and its retries included): it
  answers a call in a state \<open>'s\<close> of the outside world and moves to the next state.
  \<open>str_http_error\<close> is \<^verbatim>\<open>str(e)\<close> of the \<^verbatim>\<open>HTTPError\<close> that
  \<^verbatim>\<open>raise_for_status\<close> builds for a response; \<open>read_file\<close> opens and reads a text file.
\<close>

record 's runtime =
  transport :: "Session \<Rightarrow> request \<Rightarrow> 's \<Rightarrow> outcome \<times> 's"
  safe_load :: "string \<Rightarrow> exn + json"
  json_load :: "string \<Rightarrow> exn + json"
  read_file :: "string \<Rightarrow> exn + string"
  urljoin :: "string \<Rightarrow> string \<Rightarrow> string"
  str_of :: "json \<Rightarrow> string"
  str_http_error :: "response \<Rightarrow> string"
  format_value :: "json \<Rightarrow> string \<Rightarrow> exn + string"

text \<open>The calls of \<^verbatim>\<open>session.request\<close> made so far, oldest first, and the outside world.\<close>

record 's net =
  sent :: "request list"
  remote :: "'s"

definition session_request ::
  "'s runtime \<Rightarrow> Session \<Rightarrow> request \<Rightarrow> 's net \<Rightarrow> outcome \<times> 's net" where
  "session_request rt sess req n =
     (case transport rt sess req (remote n) of
        (out, s') \<Rightarrow> (out, \<lparr>sent = sent n @ [req], remote = s'\<rparr>))"

text \<open>
  \<^verbatim>\<open>Response.raise_for_status()\<close> of the requests library raises \<^verbatim>\<open>HTTPError\<close>
  exactly for the client-error and server-error statuses.
\<close>

definition raise_for_status :: "response \<Rightarrow> bool" where
  "raise_for_status r = (400 \<le> status_code r \<and> status_code r < 600)"

text \<open>\<^verbatim>\<open>s.rstrip('/')\<close> and \<^verbatim>\<open>s.lstrip('/')\<close>.\<close>

definition rstrip :: "char \<Rightarrow> string \<Rightarrow> string" where
  "rstrip c s = rev (dropWhile (\<lambda>x. x = c) (rev s))"

definition lstrip :: "char \<Rightarrow> string \<Rightarrow> string" where
  "lstrip c s = dropWhile (\<lambda>x. x = c) s"

subsection \<open>Construction\<close>

text \<open>
  \<^verbatim>\<open>requests.Session()\<close> is not empty: it starts with a default adapter (no retries)
  mounted for \<^verbatim>\<open>https://\<close> and for \<^verbatim>\<open>http://\<close> and with the library's four default
  headers. The version suffix of the default \<^verbatim>\<open>User-Agent\<close> is left out; the constructor
  overwrites that header.
\<close>

definition default_adapter :: HTTPAdapter where
  "default_adapter =
     \<lparr>max_retries =
        \<lparr>total = 0, backoff_factor = 0, status_forcelist = [],
         method_whitelist = [''DELETE'', ''GET'', ''HEAD'', ''OPTIONS'', ''PUT'', ''TRACE'']\<rparr>\<rparr>"

text \<open>
  \<^verbatim>\<open>Session.mount(prefix, adapter)\<close> stores the adapter under the prefix and then moves
  every shorter prefix behind it, so that the longest prefix is tried first.
\<close>

definition mount :: "string \<Rightarrow> HTTPAdapter \<Rightarrow> Session \<Rightarrow> Session" where
  "mount prefix adapter s =
     (let stored = AList.update prefix adapter (adapters s) in
      s\<lparr>adapters :=
           filter (\<lambda>(k, a). \<not> length k < length prefix) stored
           @ filter (\<lambda>(k, a). length k < length prefix) stored\<rparr>)"

definition new_Session :: Session where
  "new_Session =
     mount ''http://'' default_adapter
       (mount ''https://'' default_adapter
          \<lparr>adapters = [],
           headers = [(''User-Agent'', ''python-requests''),
                      (''Accept-Encoding'', ''gzip, deflate''),
                      (''Accept'', ''*/*''),
                      (''Connection'', ''keep-alive'')]\<rparr>)"

definition headers_update :: "(string \<times> string) list \<Rightarrow> Session \<Rightarrow> Session" where
  "headers_update kvs s = s\<lparr>headers := foldl (\<lambda>h (k, v). AList.update k v h) (headers s) kvs\<rparr>"

definition retry_strategy :: "int \<Rightarrow> Retry" where
  "retry_strategy max_retries' =
     \<lparr>total = max_retries',
      backoff_factor = 1,
      status_forcelist = [429, 500, 502, 503, 504],
      method_whitelist = [''HEAD'', ''GET'', ''PUT'', ''DELETE'', ''OPTIONS'', ''TRACE'', ''POST'']\<rparr>"

definition init :: "string \<Rightarrow> string \<Rightarrow> int \<Rightarrow> int \<Rightarrow> OpenAPIAgentsClient" where
  "init api_key' base_url' timeout' max_retries' =
     (let adapter = \<lparr>max_retries = retry_strategy max_retries'\<rparr>;
          s = mount ''https://'' adapter (mount ''http://'' adapter new_Session);
          s = headers_update
                [(''Content-Type'', ''application/json''),
                 (''X-API-Key'', api_key'),
                 (''User-Agent'', ''openapi-ai-agents-python-client/1.0.0'')] s
      in \<lparr>api_key = api_key', base_url = rstrip CHR ''/'' base_url',
          timeout = timeout', session = s\<rparr>)"

text \<open>The defaults of the constructor's keyword arguments.\<close>

definition default_base_url :: string where
  "default_base_url = ''https://api.openapi-ai-agents.org/v1''"

definition default_timeout :: int where
  "default_timeout = 30"

definition default_max_retries :: int where
  "default_max_retries = 3"

subsection \<open>The session of the library\<close>

text \<open>
  What \<^verbatim>\<open>session.request\<close> of the requests library does with the session the
  constructor configures, as far as the retry policy decides it: the method is
  upper-cased, the adapter of the first mounted prefix that the lower-cased URL starts
  with sends the request, and urllib3 repeats the exchange under the adapter's
  \<^verbatim>\<open>Retry\<close> policy. Redirects, connection failures and waiting between attempts are
  not part of this model: the service answers every exchange with a final response.
\<close>

definition ascii_upper :: "char \<Rightarrow> char" where
  "ascii_upper c =
     (case map_of (zip ''abcdefghijklmnopqrstuvwxyz'' ''ABCDEFGHIJKLMNOPQRSTUVWXYZ'') c of
        None \<Rightarrow> c | Some u \<Rightarrow> u)"

definition ascii_lower :: "char \<Rightarrow> char" where
  "ascii_lower c =
     (case map_of (zip ''ABCDEFGHIJKLMNOPQRSTUVWXYZ'' ''abcdefghijklmnopqrstuvwxyz'') c of
        None \<Rightarrow> c | Some l \<Rightarrow> l)"

definition str_upper :: "string \<Rightarrow> string" where
  "str_upper s = map ascii_upper s"

definition str_lower :: "string \<Rightarrow> string" where
  "str_lower s = map ascii_lower s"

definition startswith :: "string \<Rightarrow> string \<Rightarrow> bool" where
  "startswith s p = (take (length p) s = p)"

text \<open>\<^verbatim>\<open>Session.get_adapter(url)\<close>; \<open>None\<close> is its \<^verbatim>\<open>InvalidSchema\<close>.\<close>

definition get_adapter :: "Session \<Rightarrow> string \<Rightarrow> HTTPAdapter option" where
  "get_adapter s u =
     map_option snd
       (find (\<lambda>(p, a). startswith (str_lower u) (str_lower p)) (adapters s))"

text \<open>
  One answer of the service: the response, and whether it carries a
  \<^verbatim>\<open>Retry-After\<close> header. The wire records every exchange.
\<close>

record wire_answer =
  reply :: response
  retry_after :: bool

record 'w wire =
  exchanges :: "request list"
  service :: "'w"

text \<open>
  \<^verbatim>\<open>Retry.is_retry(method, status_code, has_retry_after)\<close> of urllib3: a method off a
  non-empty method list is never retried; a status on the forced list always is; beyond
  that, 413, 429 and 503 are retried when the response has a \<^verbatim>\<open>Retry-After\<close> header
  and \<open>total\<close> is not zero.
\<close>

definition RETRY_AFTER_STATUS_CODES :: "int list" where
  "RETRY_AFTER_STATUS_CODES = [413, 429, 503]"

definition is_method_retryable :: "Retry \<Rightarrow> string \<Rightarrow> bool" where
  "is_method_retryable r m = (method_whitelist r = [] \<or> str_upper m \<in> set (method_whitelist r))"

definition is_retry :: "Retry \<Rightarrow> string \<Rightarrow> int \<Rightarrow> bool \<Rightarrow> bool" where
  "is_retry r m status has_retry_after =
     (if \<not> is_method_retryable r m then False
      else if status \<in> set (status_forcelist r) then True
      else total r \<noteq> 0 \<and> has_retry_after \<and> status \<in> set RETRY_AFTER_STATUS_CODES)"

text \<open>
  The two ways in which the session fails in this model: no adapter for the URL, and
  retries exhausted on a status (urllib3's \<^verbatim>\<open>MaxRetryError\<close>, which the adapter turns
  into \<^verbatim>\<open>RetryError\<close>). Both are \<^verbatim>\<open>RequestException\<close>s.
\<close>

datatype session_failure = InvalidSchema | RetryError int

text \<open>
  The loop of \<^verbatim>\<open>HTTPConnectionPool.urlopen\<close>: after an answer that is to be retried,
  \<open>total\<close> is decremented; a negative \<open>total\<close> means the retries are exhausted and,
  \<^verbatim>\<open>raise_on_status\<close> being left at its default, the error is raised; otherwise the same
  request is sent again.
\<close>

function urlopen ::
  "(request \<Rightarrow> 'w \<Rightarrow> wire_answer \<times> 'w) \<Rightarrow> Retry \<Rightarrow> request \<Rightarrow> 'w wire
     \<Rightarrow> (session_failure + response) \<times> 'w wire" where
  "urlopen serve retries req w =
     (let (a, s') = serve req (service w);
          w' = \<lparr>exchanges = exchanges w @ [req], service = s'\<rparr>
      in if is_retry retries (http_method req) (status_code (reply a)) (retry_after a)
         then (if total retries - 1 < 0 then (Inl (RetryError (status_code (reply a))), w')
               else urlopen serve (retries\<lparr>total := total retries - 1\<rparr>) req w')
         else (Inr (reply a), w'))"
  by pat_completeness auto
termination
  by (relation "measure (\<lambda>(serve, retries, req, w). nat (total retries))") auto

declare urlopen.simps [simp del]

text \<open>
  \<^verbatim>\<open>session.request\<close> as a transport for the client: \<open>describe\<close> is \<^verbatim>\<open>str(e)\<close> of
  the exception raised.
\<close>

definition requests_transport ::
  "(request \<Rightarrow> session_failure \<Rightarrow> string) \<Rightarrow> (request \<Rightarrow> 'w \<Rightarrow> wire_answer \<times> 'w)
     \<Rightarrow> Session \<Rightarrow> request \<Rightarrow> 'w wire \<Rightarrow> outcome \<times> 'w wire" where
  "requests_transport describe serve sess req w =
     (let prepared = req\<lparr>http_method := str_upper (http_method req)\<rparr> in
      case get_adapter sess (url prepared) of
        None \<Rightarrow> (RequestException (describe prepared InvalidSchema), w)
      | Some adapter \<Rightarrow>
          (case urlopen serve (max_retries adapter) prepared w of
             (Inr r, w') \<Rightarrow> (Response r, w')
           | (Inl failure, w') \<Rightarrow> (RequestException (describe prepared failure), w')))"

subsection \<open>The request helper\<close>

text \<open>
  The handler of \<^verbatim>\<open>except requests.exceptions.HTTPError as e\<close>. In its last-but-one
  branch the inner \<^verbatim>\<open>try\<close> catches \<^verbatim>\<open>json.JSONDecodeError\<close> and \<^verbatim>\<open>KeyError\<close> only:
  an \<^verbatim>\<open>AttributeError\<close> of \<^verbatim>\<open>error_data.get\<close> passes through, and so does the
  \<^verbatim>\<open>ValueError\<close> the branch raises itself.
\<close>

definition handle_HTTPError :: "'s runtime \<Rightarrow> response \<Rightarrow> exn" where
  "handle_HTTPError rt r =
     (if status_code r = 401 then ValueError ''Invalid API key''
      else if status_code r = 429 then
        ValueError ''Rate limit exceeded. Please wait before retrying.''
      else if status_code r \<ge> 400 then
        (case response.json r of
           None \<Rightarrow> ValueError (''HTTP '' @ str_of rt (JInt (status_code r)) @ '': '' @ response_text r)
         | Some error_data \<Rightarrow>
             (case dict_get error_data ''error'' of
                Inl e \<Rightarrow> e
              | Inr None \<Rightarrow> ValueError (''API Error: '' @ str_http_error rt r)
              | Inr (Some v) \<Rightarrow> ValueError (''API Error: '' @ str_of rt v)))
      else HTTPError (str_http_error rt r))"

text \<open>
  On the path without an HTTP error, a body that is not JSON makes \<^verbatim>\<open>response.json()\<close>
  raise a \<^verbatim>\<open>JSONDecodeError\<close>, a subclass of \<^verbatim>\<open>ValueError\<close>. (Recent versions of
  the library raise their own subclass of it, which the last \<^verbatim>\<open>except\<close> clause wraps
  into \<^verbatim>\<open>ValueError("Request failed: ...")\<close>; either way the caller sees a
  \<^verbatim>\<open>ValueError\<close>.)
\<close>

definition make_request ::
  "'s runtime \<Rightarrow> OpenAPIAgentsClient \<Rightarrow> string \<Rightarrow> string \<Rightarrow> json option \<Rightarrow> 's net
     \<Rightarrow> (exn + json) \<times> 's net" where
  "make_request rt self method' endpoint body n =
     (let url = urljoin rt (base_url self @ ''/'') (lstrip CHR ''/'' endpoint) in
      case session_request rt (session self)
             \<lparr>http_method = method', url = url,
              timeout = OpenAPIAgentsClient.timeout self, json = body\<rparr> n of
        (RequestException msg, n') \<Rightarrow> (Inl (ValueError (''Request failed: '' @ msg)), n')
      | (Response r, n') \<Rightarrow>
          if raise_for_status r then (Inl (handle_HTTPError rt r), n')
          else (case response.json r of
                  None \<Rightarrow> (Inl JSONDecodeError, n')
                | Some v \<Rightarrow> (Inr v, n')))"

subsection \<open>The operations\<close>

text \<open>
  Every operation that takes a specification or a configuration starts with
  \<^verbatim>\<open>if isinstance(x, str): x = yaml.safe_load(x)\<close>.
\<close>

definition load_if_str :: "'s runtime \<Rightarrow> json \<Rightarrow> exn + json" where
  "load_if_str rt x = (case x of JStr s \<Rightarrow> safe_load rt s | _ \<Rightarrow> Inr x)"

definition health_check ::
  "'s runtime \<Rightarrow> OpenAPIAgentsClient \<Rightarrow> 's net \<Rightarrow> (exn + json) \<times> 's net" where
  "health_check rt self n = make_request rt self ''GET'' ''/health'' None n"

definition list_frameworks ::
  "'s runtime \<Rightarrow> OpenAPIAgentsClient \<Rightarrow> 's net \<Rightarrow> (exn + json) \<times> 's net" where
  "list_frameworks rt self n =
     (case make_request rt self ''GET'' ''/frameworks'' None n of
        (res, n') \<Rightarrow> (bind res (\<lambda>response. subscript response ''frameworks''), n'))"

definition list_protocols ::
  "'s runtime \<Rightarrow> OpenAPIAgentsClient \<Rightarrow> 's net \<Rightarrow> (exn + json) \<times> 's net" where
  "list_protocols rt self n =
     (case make_request rt self ''GET'' ''/protocols'' None n of
        (res, n') \<Rightarrow> (bind res (\<lambda>response. subscript response ''protocols''), n'))"

definition validate_openapi ::
  "'s runtime \<Rightarrow> OpenAPIAgentsClient \<Rightarrow> json \<Rightarrow> 's net
     \<Rightarrow> (exn + ValidationResult) \<times> 's net" where
  "validate_openapi rt self specification n =
     (case load_if_str rt specification of
        Inl e \<Rightarrow> (Inl e, n)
      | Inr specification \<Rightarrow>
          (case make_request rt self ''POST'' ''/validate/openapi''
                  (Some (JObj [(''specification'', specification)])) n of
             (res, n') \<Rightarrow>
               (bind res (\<lambda>response.
                  bind (subscript response ''valid'') (\<lambda>v.
                  bind (subscript response ''certification_level'') (\<lambda>c.
                  bind (subscript response ''passed'') (\<lambda>p.
                  bind (subscript response ''warnings'') (\<lambda>w.
                  bind (subscript response ''errors'') (\<lambda>e.
                    Inr \<lparr>ValidationResult.valid = v, certification_level = c,
                         passed = p, warnings = w, errors = e\<rparr>)))))), n')))"

definition validate_agent_config ::
  "'s runtime \<Rightarrow> OpenAPIAgentsClient \<Rightarrow> json \<Rightarrow> 's net
     \<Rightarrow> (exn + ValidationResult) \<times> 's net" where
  "validate_agent_config rt self configuration n =
     (case load_if_str rt configuration of
        Inl e \<Rightarrow> (Inl e, n)
      | Inr configuration \<Rightarrow>
          (case make_request rt self ''POST'' ''/validate/agent-config''
                  (Some (JObj [(''configuration'', configuration)])) n of
             (res, n') \<Rightarrow>
               (bind res (\<lambda>response.
                  bind (subscript response ''valid'') (\<lambda>v.
                  bind (subscript response ''readiness_level'') (\<lambda>c.
                  bind (subscript response ''passed'') (\<lambda>p.
                  bind (subscript response ''warnings'') (\<lambda>w.
                  bind (subscript response ''errors'') (\<lambda>e.
                    Inr \<lparr>ValidationResult.valid = v, certification_level = c,
                         passed = p, warnings = w, errors = e\<rparr>)))))), n')))"

text \<open>
  The optional list argument of \<^verbatim>\<open>validate_compliance\<close> and
  \<^verbatim>\<open>validate_protocols\<close>: \<^verbatim>\<open>if frameworks: payload['frameworks'] = frameworks\<close>.
  \<open>None\<close> and the empty list are both false.
\<close>

definition with_optional ::
  "string \<Rightarrow> string list option \<Rightarrow> (string \<times> json) list \<Rightarrow> (string \<times> json) list" where
  "with_optional key names payload =
     (case names of
        None \<Rightarrow> payload
      | Some [] \<Rightarrow> payload
      | Some xs \<Rightarrow> AList.update key (JList (map JStr xs)) payload)"

definition validate_compliance ::
  "'s runtime \<Rightarrow> OpenAPIAgentsClient \<Rightarrow> json \<Rightarrow> string list option \<Rightarrow> 's net
     \<Rightarrow> (exn + ComplianceResult) \<times> 's net" where
  "validate_compliance rt self configuration frameworks n =
     (case load_if_str rt configuration of
        Inl e \<Rightarrow> (Inl e, n)
      | Inr configuration \<Rightarrow>
          (let payload = with_optional ''frameworks'' frameworks
                           [(''configuration'', configuration)] in
           case make_request rt self ''POST'' ''/validate/compliance'' (Some (JObj payload)) n of
             (res, n') \<Rightarrow>
               (bind res (\<lambda>response.
                  bind (subscript response ''valid'') (\<lambda>v.
                  bind (subscript response ''authorization_readiness'') (\<lambda>a.
                  bind (subscript response ''framework_results'') (\<lambda>f.
                  bind (bind (subscript response ''summary'')
                          (\<lambda>s. subscript s ''total_passed'')) (\<lambda>tp.
                  bind (bind (subscript response ''summary'')
                          (\<lambda>s. subscript s ''total_warnings'')) (\<lambda>tw.
                  bind (bind (subscript response ''summary'')
                          (\<lambda>s. subscript s ''total_errors'')) (\<lambda>te.
                    Inr \<lparr>ComplianceResult.valid = v, authorization_readiness = a,
                         framework_results = f, total_passed = tp,
                         total_warnings = tw, total_errors = te\<rparr>))))))), n')))"

definition validate_protocols ::
  "'s runtime \<Rightarrow> OpenAPIAgentsClient \<Rightarrow> json \<Rightarrow> string list option \<Rightarrow> 's net
     \<Rightarrow> (exn + json) \<times> 's net" where
  "validate_protocols rt self configuration protocols n =
     (case load_if_str rt configuration of
        Inl e \<Rightarrow> (Inl e, n)
      | Inr configuration \<Rightarrow>
          (let payload = with_optional ''protocols'' protocols
                           [(''configuration'', configuration)] in
           make_request rt self ''POST'' ''/validate/protocols'' (Some (JObj payload)) n))"

text \<open>The defaults of \<^verbatim>\<open>estimate_tokens\<close>.\<close>

definition default_model :: json where
  "default_model = JStr ''gpt-4-turbo''"

definition default_requests_per_day :: json where
  "default_requests_per_day = JInt 1000"

definition default_compression_ratio :: json where
  "default_compression_ratio = JFloat 0.7"

definition estimate_request_body :: "json \<Rightarrow> json \<Rightarrow> json \<Rightarrow> json \<Rightarrow> json" where
  "estimate_request_body specification model' requests_per_day compression_ratio =
     JObj [(''specification'', specification),
           (''options'', JObj [(''model'', model'),
                               (''requestsPerDay'', requests_per_day),
                               (''compressionRatio'', compression_ratio)])]"

definition cost_projection :: "json \<Rightarrow> string \<Rightarrow> exn + json" where
  "cost_projection response k = bind (subscript response ''cost_projections'') (\<lambda>c. subscript c k)"

definition estimate_tokens ::
  "'s runtime \<Rightarrow> OpenAPIAgentsClient \<Rightarrow> json \<Rightarrow> json \<Rightarrow> json \<Rightarrow> json \<Rightarrow> 's net
     \<Rightarrow> (exn + EstimationResult) \<times> 's net" where
  "estimate_tokens rt self specification model' requests_per_day compression_ratio n =
     (case load_if_str rt specification of
        Inl e \<Rightarrow> (Inl e, n)
      | Inr specification \<Rightarrow>
          (case make_request rt self ''POST'' ''/estimate/tokens''
                  (Some (estimate_request_body specification model' requests_per_day
                           compression_ratio)) n of
             (res, n') \<Rightarrow>
               (bind res (\<lambda>response.
                  bind (subscript response ''total_tokens'') (\<lambda>tt.
                  bind (subscript response ''compressed_tokens'') (\<lambda>ct.
                  bind (cost_projection response ''model'') (\<lambda>m.
                  bind (cost_projection response ''daily_cost'') (\<lambda>dc.
                  bind (cost_projection response ''monthly_cost'') (\<lambda>mc.
                  bind (cost_projection response ''annual_cost'') (\<lambda>ac.
                  bind (cost_projection response ''annual_savings'') (\<lambda>as.
                  bind (cost_projection response ''savings_percentage'') (\<lambda>sp.
                  bind (subscript response ''token_breakdown'') (\<lambda>tb.
                  bind (subscript response ''optimizations'') (\<lambda>os.
                    Inr \<lparr>total_tokens = tt, compressed_tokens = ct, model = m,
                         daily_cost = dc, monthly_cost = mc, annual_cost = ac,
                         annual_savings = as, savings_percentage = sp,
                         token_breakdown = tb, optimizations = os\<rparr>))))))))))), n')))"

text \<open>
  \<^verbatim>\<open>self.estimate_tokens(specification, **estimation_options)\<close>: a keyword that is not a
  parameter of \<^verbatim>\<open>estimate_tokens\<close>, or that names the positional \<^verbatim>\<open>specification\<close>
  again, makes the call itself raise \<^verbatim>\<open>TypeError\<close>; a missing one takes its default.
\<close>

definition kwarg :: "(string \<times> json) list \<Rightarrow> string \<Rightarrow> json \<Rightarrow> json" where
  "kwarg kw k d = (case map_of kw k of None \<Rightarrow> d | Some v \<Rightarrow> v)"

definition estimate_tokens_kw ::
  "'s runtime \<Rightarrow> OpenAPIAgentsClient \<Rightarrow> json \<Rightarrow> (string \<times> json) list \<Rightarrow> 's net
     \<Rightarrow> (exn + EstimationResult) \<times> 's net" where
  "estimate_tokens_kw rt self specification kw n =
     (if list_all (\<lambda>(k, v). k \<in> set [''model'', ''requests_per_day'', ''compression_ratio'']) kw
      then estimate_tokens rt self specification
             (kwarg kw ''model'' default_model)
             (kwarg kw ''requests_per_day'' default_requests_per_day)
             (kwarg kw ''compression_ratio'' default_compression_ratio) n
      else (Inl TypeError, n))"

text \<open>
  \<^verbatim>\<open>validate_and_estimate(specification, **estimation_options)\<close>: an option named
  \<^verbatim>\<open>specification\<close> or \<^verbatim>\<open>self\<close> clashes with the parameters of the method itself,
  and Python rejects the call with \<^verbatim>\<open>TypeError\<close> before the body runs.
\<close>

definition validate_and_estimate ::
  "'s runtime \<Rightarrow> OpenAPIAgentsClient \<Rightarrow> json \<Rightarrow> (string \<times> json) list \<Rightarrow> 's net
     \<Rightarrow> (exn + ValidationResult \<times> EstimationResult) \<times> 's net" where
  "validate_and_estimate rt self specification estimation_options n =
     (if list_ex (\<lambda>(k, v). k \<in> set [''self'', ''specification'']) estimation_options
      then (Inl TypeError, n)
      else
        (case validate_openapi rt self specification n of
           (Inl e, n') \<Rightarrow> (Inl e, n')
         | (Inr validation, n') \<Rightarrow>
             (case estimate_tokens_kw rt self specification estimation_options n' of
                (Inl e, n'') \<Rightarrow> (Inl e, n'')
              | (Inr estimation, n'') \<Rightarrow> (Inr (validation, estimation), n''))))"

subsection \<open>Loading a specification file\<close>

definition endswith :: "string \<Rightarrow> string \<Rightarrow> bool" where
  "endswith s suffix =
     (length suffix \<le> length s \<and> drop (length s - length suffix) s = suffix)"

definition load_specification :: "'s runtime \<Rightarrow> string \<Rightarrow> exn + json" where
  "load_specification rt file_path =
     bind (read_file rt file_path) (\<lambda>f.
       if endswith file_path ''.yaml'' \<or> endswith file_path ''.yml''
       then safe_load rt f
       else json_load rt f)"

subsection \<open>The command line\<close>

text \<open>
  The script prints as it goes. A \<^verbatim>\<open>print\<close> of a constant text is left out; one whose
  f-string evaluates an expression that can raise is kept as that evaluation. The
  built-ins are modelled on the values the client can hold: \<^verbatim>\<open>len(x)\<close>,
  \<^verbatim>\<open>x[:k]\<close>, \<^verbatim>\<open>for item in x\<close> and \<^verbatim>\<open>x.upper()\<close>. Where Python versions
  differ in the class of the exception (slicing a dict), the script does not tell them
  apart: it catches every \<^verbatim>\<open>Exception\<close>. Formatting with a format specification
  (\<^verbatim>\<open>{x:,}\<close>, \<^verbatim>\<open>{x:.2f}\<close>) is the parameter \<open>format_value\<close>; \<^verbatim>\<open>print\<close>
  itself is taken not to fail.
\<close>

fun py_len :: "json \<Rightarrow> exn + nat" where
  "py_len (JStr s) = Inr (length s)"
| "py_len (JList xs) = Inr (length xs)"
| "py_len (JObj kvs) = Inr (length kvs)"
| "py_len _ = Inl TypeError"

fun py_slice_to :: "nat \<Rightarrow> json \<Rightarrow> exn + json" where
  "py_slice_to k (JStr s) = Inr (JStr (take k s))"
| "py_slice_to k (JList xs) = Inr (JList (take k xs))"
| "py_slice_to k _ = Inl TypeError"

fun py_iter :: "json \<Rightarrow> exn + json list" where
  "py_iter (JStr s) = Inr (map (\<lambda>c. JStr [c]) s)"
| "py_iter (JList xs) = Inr xs"
| "py_iter (JObj kvs) = Inr (map (\<lambda>(k, v). JStr k) kvs)"
| "py_iter _ = Inl TypeError"

fun py_upper :: "json \<Rightarrow> exn + unit" where
  "py_upper (JStr s) = Inr ()"
| "py_upper _ = Inl AttributeError"

fun for_each :: "('a \<Rightarrow> exn + unit) \<Rightarrow> 'a list \<Rightarrow> exn + unit" where
  "for_each body [] = Inr ()"
| "for_each body (x # xs) = bind (body x) (\<lambda>_. for_each body xs)"

text \<open>The prints of the branch \<^verbatim>\<open>if validation.valid:\<close>.\<close>

definition print_passed :: "ValidationResult \<Rightarrow> exn + unit" where
  "print_passed validation =
     bind (py_upper (certification_level validation)) (\<lambda>_.
     bind (py_len (passed validation)) (\<lambda>_.
     if truthy (warnings validation) then
       bind (py_len (warnings validation)) (\<lambda>_.
       bind (py_slice_to 3 (warnings validation)) (\<lambda>ws.
       bind (py_iter ws) (\<lambda>_. Inr ())))
     else Inr ()))"

text \<open>The prints after \<^verbatim>\<open>estimation = client.estimate_tokens(spec)\<close>.\<close>

definition print_estimation :: "'s runtime \<Rightarrow> EstimationResult \<Rightarrow> exn + unit" where
  "print_estimation rt estimation =
     bind (format_value rt (total_tokens estimation) '','') (\<lambda>_.
     bind (format_value rt (compressed_tokens estimation) '','') (\<lambda>_.
     bind (format_value rt (daily_cost estimation) ''.2f'') (\<lambda>_.
     bind (format_value rt (annual_cost estimation) ''.2f'') (\<lambda>_.
     bind (format_value rt (annual_savings estimation) ''.2f'') (\<lambda>_.
     bind (format_value rt (savings_percentage estimation) ''.1f'') (\<lambda>_.
     if truthy (optimizations estimation) then
       bind (py_len (optimizations estimation)) (\<lambda>_.
       bind (py_slice_to 2 (optimizations estimation)) (\<lambda>opts.
       bind (py_iter opts) (\<lambda>items.
         for_each (\<lambda>opt.
           bind (subscript opt ''type'') (\<lambda>_.
           bind (subscript opt ''potential_savings'') (\<lambda>_. Inr ()))) items)))
     else Inr ()))))))"

definition api_key_from :: "(string \<Rightarrow> string option) \<Rightarrow> string list \<Rightarrow> string option" where
  "api_key_from environ argv =
     (if length argv > 2 then Some (argv ! 2) else environ ''OPENAPI_AI_AGENTS_KEY'')"

text \<open>
  The \<^verbatim>\<open>try\<close> block of the script. \<open>Inl e\<close> is an exception that reaches
  \<^verbatim>\<open>except Exception\<close>; \<open>Inr (Some c)\<close> is \<^verbatim>\<open>sys.exit(c)\<close> inside the block, whose
  \<^verbatim>\<open>SystemExit\<close> is not an \<^verbatim>\<open>Exception\<close> and leaves the block uncaught;
  \<open>Inr None\<close> is the block running to its end.
\<close>

definition main_try ::
  "'s runtime \<Rightarrow> string \<Rightarrow> string \<Rightarrow> 's net \<Rightarrow> (exn + int option) \<times> 's net" where
  "main_try rt key spec_file n =
     (let client = init key default_base_url default_timeout default_max_retries in
      case load_specification rt spec_file of
        Inl e \<Rightarrow> (Inl e, n)
      | Inr spec \<Rightarrow>
          (case validate_openapi rt client spec n of
             (Inl e, n1) \<Rightarrow> (Inl e, n1)
           | (Inr validation, n1) \<Rightarrow>
               (case (if truthy (ValidationResult.valid validation)
                      then bind (print_passed validation) (\<lambda>_. Inr None)
                      else bind (py_iter (errors validation)) (\<lambda>_. Inr (Some 1))) of
                  Inl e \<Rightarrow> (Inl e, n1)
                | Inr (Some code) \<Rightarrow> (Inr (Some code), n1)
                | Inr None \<Rightarrow>
                    (case estimate_tokens rt client spec default_model
                            default_requests_per_day default_compression_ratio n1 of
                       (Inl e, n2) \<Rightarrow> (Inl e, n2)
                     | (Inr estimation, n2) \<Rightarrow>
                         (bind (print_estimation rt estimation) (\<lambda>_. Inr None), n2)))))"

text \<open>The script: its exit code and the requests it made.\<close>

definition main ::
  "'s runtime \<Rightarrow> (string \<Rightarrow> string option) \<Rightarrow> string list \<Rightarrow> 's net \<Rightarrow> int \<times> 's net" where
  "main rt environ argv n =
     (if length argv < 2 then (1, n)
      else
        (case api_key_from environ argv of
           None \<Rightarrow> (1, n)
         | Some key \<Rightarrow>
             if key = [] then (1, n)
             else
               (case main_try rt key (argv ! 1) n of
                  (Inl e, n') \<Rightarrow> (1, n')
                | (Inr (Some code), n') \<Rightarrow> (code, n')
                | (Inr None, n') \<Rightarrow> (0, n'))))"

subsection \<open>Auxiliary definitions for the statements\<close>

text \<open>The call a \<^verbatim>\<open>POST\<close> operation of the client hands to the session.\<close>

definition post :: "'s runtime \<Rightarrow> OpenAPIAgentsClient \<Rightarrow> string \<Rightarrow> json \<Rightarrow> request" where
  "post rt self path body =
     \<lparr>http_method = ''POST'', url = urljoin rt (base_url self @ ''/'') path,
      timeout = OpenAPIAgentsClient.timeout self, json = Some body\<rparr>"

text \<open>
  A canned outside world for the examples. \<^verbatim>\<open>str\<close> of a status code is its three
  digits; \<^verbatim>\<open>str(e)\<close> of an \<^verbatim>\<open>HTTPError\<close> is the message \<^verbatim>\<open>raise_for_status\<close>
  builds from the status, the reason phrase and the URL.
\<close>

definition status_text :: "int \<Rightarrow> string" where
  "status_text s =
     [''0123456789'' ! nat (s div 100), ''0123456789'' ! nat (s div 10 mod 10),
      ''0123456789'' ! nat (s mod 10)]"

definition reason_phrase :: "int \<Rightarrow> string" where
  "reason_phrase s =
     (if s = 400 then ''Bad Request'' else if s = 401 then ''Unauthorized''
      else if s = 404 then ''Not Found'' else if s = 413 then ''Payload Too Large''
      else if s = 429 then ''Too Many Requests'' else if s = 500 then ''Internal Server Error''
      else if s = 503 then ''Service Unavailable'' else ''Unknown'')"

definition http_error_text :: "string \<Rightarrow> response \<Rightarrow> string" where
  "http_error_text u r =
     status_text (status_code r)
     @ (if status_code r < 500 then '' Client Error: '' else '' Server Error: '')
     @ reason_phrase (status_code r) @ '' for url: '' @ u"

definition health_url :: string where
  "health_url = ''https://api.openapi-ai-agents.org/v1/health''"

text \<open>
  The service answers by a fixed function of the request, one YAML text and one JSON text
  parse (both to the object \<^verbatim>\<open>{"a": 1}\<close>), two files hold these texts and two hold
  broken ones, joining a relative path onto a base that ends in a slash appends it, and
  the requests that end in an HTTP error are the ones to \<^verbatim>\<open>/health\<close>.
\<close>

definition canned_runtime :: "(request \<Rightarrow> outcome) \<Rightarrow> unit runtime" where
  \<open>canned_runtime answer =
     \<lparr>transport = (\<lambda>sess req s. (answer req, s)),
      safe_load = (\<lambda>s. if s = ''a: 1'' then Inr (JObj [(''a'', JInt 1)])
                       else Inl (OtherError ''YAMLError'')),
      json_load = (\<lambda>s. if s = ''{"a": 1}'' then Inr (JObj [(''a'', JInt 1)])
                       else Inl JSONDecodeError),
      read_file = (\<lambda>p. if p = ''spec.yaml'' then Inr ''a: 1''
                       else if p = ''spec.json'' then Inr ''{"a": 1}''
                       else if p = ''broken.yml'' then Inr ''a: [1''
                       else if p = ''broken.txt'' then Inr ''{''
                       else Inl (OtherError ''FileNotFoundError'')),
      urljoin = (\<lambda>b e. b @ e),
      str_of = (\<lambda>v. case v of JStr s \<Rightarrow> s
                         | JInt i \<Rightarrow> (if 100 \<le> i \<and> i \<le> 999 then status_text i else ''...'')
                         | _ \<Rightarrow> ''...''),
      str_http_error = http_error_text health_url,
      format_value = (\<lambda>v f. case v of JInt i \<Rightarrow> Inr ''0'' | JFloat x \<Rightarrow> Inr ''0''
                                | JBool b \<Rightarrow> Inr ''0'' | _ \<Rightarrow> Inl TypeError)\<rparr>\<close>

definition canned_client :: OpenAPIAgentsClient where
  "canned_client = init ''secret'' default_base_url default_timeout default_max_retries"

definition fresh_net :: "unit net" where
  "fresh_net = \<lparr>sent = [], remote = ()\<rparr>"

definition answer_with :: "int \<Rightarrow> json \<Rightarrow> request \<Rightarrow> outcome" where
  "answer_with status body req =
     Response \<lparr>status_code = status, response_text = ''<body>'', json = Some body\<rparr>"

definition gold_body :: json where
  "gold_body =
     JObj [(''valid'', JBool True), (''certification_level'', JStr ''gold''),
           (''passed'', JList [JStr ''a'']), (''warnings'', JList []), (''errors'', JList [])]"

definition ready_body :: json where
  "ready_body =
     JObj [(''valid'', JBool True), (''readiness_level'', JStr ''production''),
           (''passed'', JList [JStr ''a'']), (''warnings'', JList []), (''errors'', JList [])]"

definition estimate_body :: json where
  "estimate_body =
     JObj [(''total_tokens'', JInt 1200), (''compressed_tokens'', JInt 840),
           (''cost_projections'',
              JObj [(''model'', JStr ''gpt-4-turbo''), (''daily_cost'', JFloat 12.5),
                    (''monthly_cost'', JFloat 375), (''annual_cost'', JFloat 4562.5),
                    (''annual_savings'', JFloat 1955.5), (''savings_percentage'', JFloat 30)]),
           (''token_breakdown'', JObj [(''paths'', JInt 700)]),
           (''optimizations'', JList [])]"

definition answer_text :: "int \<Rightarrow> string \<Rightarrow> request \<Rightarrow> outcome" where
  "answer_text status body req =
     Response \<lparr>status_code = status, response_text = body, json = None\<rparr>"

definition full_body :: json where
  "full_body =
     JObj [(''valid'', JBool True), (''certification_level'', JStr ''gold''),
           (''passed'', JList [JStr ''a'']), (''warnings'', JList []), (''errors'', JList []),
           (''total_tokens'', JInt 1200), (''compressed_tokens'', JInt 840),
           (''cost_projections'',
              JObj [(''model'', JStr ''gpt-4''), (''daily_cost'', JFloat 12.5),
                    (''monthly_cost'', JFloat 375), (''annual_cost'', JFloat 4562.5),
                    (''annual_savings'', JFloat 1955.5), (''savings_percentage'', JFloat 30)]),
           (''token_breakdown'', JObj []),
           (''optimizations'', JList [])]"

definition invalid_body :: json where
  "invalid_body =
     JObj [(''valid'', JBool False), (''certification_level'', JStr ''none''),
           (''passed'', JList []), (''warnings'', JList []),
           (''errors'', JList [JStr ''missing info''])]"

definition cli_client :: "string \<Rightarrow> OpenAPIAgentsClient" where
  "cli_client key = init key default_base_url default_timeout default_max_retries"

text \<open>
  The same world behind the session of the library: the service answers on the wire, and
  \<^verbatim>\<open>session.request\<close> retries as the mounted policy says.
\<close>

definition failure_text :: "request \<Rightarrow> session_failure \<Rightarrow> string" where
  "failure_text req f =
     (case f of
        InvalidSchema \<Rightarrow> ''No connection adapters were found for '' @ url req
      | RetryError s \<Rightarrow>
          ''Max retries exceeded with url: '' @ url req @ '' (Caused by ResponseError(too many ''
          @ status_text s @ '' error responses))'')"

definition served_runtime :: "(request \<Rightarrow> wire_answer) \<Rightarrow> unit wire runtime" where
  "served_runtime answer =
     \<lparr>transport = requests_transport failure_text (\<lambda>req s. (answer req, s)),
      safe_load = safe_load (canned_runtime (\<lambda>req. RequestException [])),
      json_load = json_load (canned_runtime (\<lambda>req. RequestException [])),
      read_file = read_file (canned_runtime (\<lambda>req. RequestException [])),
      urljoin = (\<lambda>b e. b @ e),
      str_of = str_of (canned_runtime (\<lambda>req. RequestException [])),
      str_http_error = http_error_text health_url,
      format_value = format_value (canned_runtime (\<lambda>req. RequestException []))\<rparr>"

definition fresh_wire :: "unit wire net" where
  "fresh_wire = \<lparr>sent = [], remote = \<lparr>exchanges = [], service = ()\<rparr>\<rparr>"

definition json_answer :: "int \<Rightarrow> string \<Rightarrow> json \<Rightarrow> request \<Rightarrow> wire_answer" where
  "json_answer status body parsed req =
     \<lparr>reply = \<lparr>status_code = status, response_text = body, json = Some parsed\<rparr>,
      retry_after = False\<rparr>"

definition plain_answer :: "int \<Rightarrow> string \<Rightarrow> request \<Rightarrow> wire_answer" where
  "plain_answer status body req =
     \<lparr>reply = \<lparr>status_code = status, response_text = body, json = None\<rparr>,
      retry_after = False\<rparr>"
text \<open>An answer that asks the client to come back later.\<close>

definition busy_answer :: "int \<Rightarrow> string \<Rightarrow> request \<Rightarrow> wire_answer" where
  "busy_answer status body req =
     \<lparr>reply = \<lparr>status_code = status, response_text = body, json = None\<rparr>,
      retry_after = True\<rparr>"

section \<open>Properties\<close>

subsection \<open>Requests\<close>

lemma sent_make_request:
  "sent (snd (make_request rt self m e b n)) =
     sent n @ [\<lparr>http_method = m, url = urljoin rt (base_url self @ ''/'') (lstrip CHR ''/'' e),
               timeout = OpenAPIAgentsClient.timeout self, json = b\<rparr>]"
  by (simp add: make_request_def session_request_def Let_def
           split: prod.splits outcome.splits option.splits)

lemma lstrip_endpoints:
  "lstrip CHR ''/'' ''/validate/openapi'' = ''validate/openapi''"
  "lstrip CHR ''/'' ''/validate/agent-config'' = ''validate/agent-config''"
  "lstrip CHR ''/'' ''/validate/compliance'' = ''validate/compliance''"
  "lstrip CHR ''/'' ''/validate/protocols'' = ''validate/protocols''"
  "lstrip CHR ''/'' ''/estimate/tokens'' = ''estimate/tokens''"
  by (simp_all add: lstrip_def)

lemma canned_client_fields:
  "base_url canned_client = ''https://api.openapi-ai-agents.org/v1''"
  "OpenAPIAgentsClient.timeout canned_client = 30"
  by (simp_all add: canned_client_def init_def Let_def default_base_url_def
        default_timeout_def rstrip_def)

text \<open>
  Claim C1. Given a mapping, \<^verbatim>\<open>validate_openapi\<close> makes exactly one call, a
  \<^verbatim>\<open>POST\<close> to \<^verbatim>\<open>validate/openapi\<close> under the base URL, whose JSON body is the
  one-entry object that maps \<^verbatim>\<open>specification\<close> to the mapping itself. Given a string, the
  string is YAML-parsed first and the parse result is what the body carries; when the
  parse raises, nothing is sent.
\<close>

theorem validate_openapi_request:
  "sent (snd (validate_openapi rt self (JObj m) n)) =
     sent n @ [post rt self ''validate/openapi'' (JObj [(''specification'', JObj m)])]
   \<and> sent (snd (validate_openapi rt self (JStr s) n)) =
       (case safe_load rt s of
          Inl e \<Rightarrow> sent n
        | Inr p \<Rightarrow> sent n @ [post rt self ''validate/openapi'' (JObj [(''specification'', p)])])"
  by (simp add: validate_openapi_def load_if_str_def sent_make_request lstrip_endpoints
           post_def case_prod_unfold split: sum.splits)

theorem validate_openapi_request_witness:
  "sent (snd (validate_openapi (canned_runtime (answer_with 200 gold_body)) canned_client
           (JObj [(''openapi'', JStr ''3.1.0'')]) fresh_net)) =
     [\<lparr>http_method = ''POST'',
       url = ''https://api.openapi-ai-agents.org/v1/validate/openapi'',
       timeout = 30,
       json = Some (JObj [(''specification'', JObj [(''openapi'', JStr ''3.1.0'')])])\<rparr>]
   \<and> sent (snd (validate_openapi (canned_runtime (answer_with 200 gold_body)) canned_client
           (JStr ''a: 1'') fresh_net)) =
     [\<lparr>http_method = ''POST'',
       url = ''https://api.openapi-ai-agents.org/v1/validate/openapi'',
       timeout = 30,
       json = Some (JObj [(''specification'', JObj [(''a'', JInt 1)])])\<rparr>]
   \<and> sent (snd (validate_openapi (canned_runtime (answer_with 200 gold_body)) canned_client
           (JStr ''a: [1'') fresh_net)) = []"
  using validate_openapi_request
      [of "canned_runtime (answer_with 200 gold_body)" canned_client
          "[(''openapi'', JStr ''3.1.0'')]" fresh_net "''a: 1''"]
    validate_openapi_request
      [of "canned_runtime (answer_with 200 gold_body)" canned_client
          "[(''openapi'', JStr ''3.1.0'')]" fresh_net "''a: [1''"]
  by (simp add: canned_runtime_def fresh_net_def post_def canned_client_fields)

subsection \<open>Results\<close>

lemma make_request_ok:
  assumes "transport rt (session self)
             \<lparr>http_method = m, url = urljoin rt (base_url self @ ''/'') (lstrip CHR ''/'' e),
              timeout = OpenAPIAgentsClient.timeout self, json = b\<rparr> (remote n) = (Response r, s')"
    and "\<not> raise_for_status r" and "response.json r = Some v"
  shows "fst (make_request rt self m e b n) = Inr v"
  using assms by (simp add: make_request_def session_request_def)

lemma bind_Inr: "bind (Inr x) f = f x"
  by (simp add: bind_def)

lemma bind_Inl: "bind (Inl e) f = Inl e"
  by (simp add: bind_def)

lemma validate_openapi_ok:
  assumes "load_if_str rt x = Inr p"
    and "transport rt (session self)
           (post rt self ''validate/openapi'' (JObj [(''specification'', p)])) (remote n)
         = (Response r, s')"
    and "\<not> raise_for_status r" and "response.json r = Some (JObj kvs)"
    and "map_of kvs ''valid'' = Some v" and "map_of kvs ''certification_level'' = Some c"
    and "map_of kvs ''passed'' = Some ps" and "map_of kvs ''warnings'' = Some ws"
    and "map_of kvs ''errors'' = Some es"
  shows "fst (validate_openapi rt self x n) =
           Inr \<lparr>ValidationResult.valid = v, certification_level = c, passed = ps,
                warnings = ws, errors = es\<rparr>"
proof -
  have "fst (make_request rt self ''POST'' ''/validate/openapi''
               (Some (JObj [(''specification'', p)])) n) = Inr (JObj kvs)"
    using assms(2-4) by (intro make_request_ok) (simp_all add: post_def lstrip_endpoints)
  then show ?thesis
    using assms(1,5-9)
    by (simp add: validate_openapi_def case_prod_unfold bind_Inr)
qed

lemma validate_agent_config_ok:
  assumes "load_if_str rt x = Inr p"
    and "transport rt (session self)
           (post rt self ''validate/agent-config'' (JObj [(''configuration'', p)])) (remote n)
         = (Response r, s')"
    and "\<not> raise_for_status r" and "response.json r = Some (JObj kvs)"
    and "map_of kvs ''valid'' = Some v" and "map_of kvs ''readiness_level'' = Some c"
    and "map_of kvs ''passed'' = Some ps" and "map_of kvs ''warnings'' = Some ws"
    and "map_of kvs ''errors'' = Some es"
  shows "fst (validate_agent_config rt self x n) =
           Inr \<lparr>ValidationResult.valid = v, certification_level = c, passed = ps,
                warnings = ws, errors = es\<rparr>"
proof -
  have "fst (make_request rt self ''POST'' ''/validate/agent-config''
               (Some (JObj [(''configuration'', p)])) n) = Inr (JObj kvs)"
    using assms(2-4) by (intro make_request_ok) (simp_all add: post_def lstrip_endpoints)
  then show ?thesis
    using assms(1,5-9)
    by (simp add: validate_agent_config_def case_prod_unfold bind_Inr)
qed

text \<open>
  Claim C2. When the service answers the call of \<^verbatim>\<open>validate_openapi\<close> with a response
  that is no HTTP error and whose body is a JSON object \<open>r\<close> with the five keys, the
  result record holds \<^verbatim>\<open>r['valid']\<close>, \<^verbatim>\<open>r['certification_level']\<close>,
  \<^verbatim>\<open>r['passed']\<close>, \<^verbatim>\<open>r['warnings']\<close> and \<^verbatim>\<open>r['errors']\<close>, unchanged.
  \<^verbatim>\<open>validate_agent_config\<close> builds the same record, with \<open>certification_level\<close>
  read from \<^verbatim>\<open>r['readiness_level']\<close>. The example is the canned response of the
  specification: it yields \<open>valid = true\<close> and \<open>certification_level = "gold"\<close>.
\<close>

theorem validation_result_fields:
  assumes "load_if_str rt x = Inr p"
    and "\<not> raise_for_status r" and "response.json r = Some (JObj kvs)"
    and "map_of kvs ''valid'' = Some v"
    and "map_of kvs ''passed'' = Some ps" and "map_of kvs ''warnings'' = Some ws"
    and "map_of kvs ''errors'' = Some es"
  shows "(transport rt (session self)
            (post rt self ''validate/openapi'' (JObj [(''specification'', p)])) (remote n)
          = (Response r, s') \<and> map_of kvs ''certification_level'' = Some c
          \<longrightarrow> fst (validate_openapi rt self x n) =
                Inr \<lparr>ValidationResult.valid = v, certification_level = c, passed = ps,
                     warnings = ws, errors = es\<rparr>)
       \<and> (transport rt (session self)
            (post rt self ''validate/agent-config'' (JObj [(''configuration'', p)])) (remote n)
          = (Response r, s') \<and> map_of kvs ''readiness_level'' = Some c
          \<longrightarrow> fst (validate_agent_config rt self x n) =
                Inr \<lparr>ValidationResult.valid = v, certification_level = c, passed = ps,
                     warnings = ws, errors = es\<rparr>)"
  using assms validate_openapi_ok [of rt x p self n r s' kvs v c ps ws es]
    validate_agent_config_ok [of rt x p self n r s' kvs v c ps ws es]
  by blast

theorem validation_result_fields_witness:
  "fst (validate_openapi (canned_runtime (answer_with 200 gold_body)) canned_client
          (JObj [(''openapi'', JStr ''3.1.0'')]) fresh_net) =
     Inr \<lparr>ValidationResult.valid = JBool True, certification_level = JStr ''gold'',
          passed = JList [JStr ''a''], warnings = JList [], errors = JList []\<rparr>
   \<and> fst (validate_agent_config (canned_runtime (answer_with 200 ready_body)) canned_client
          (JStr ''a: 1'') fresh_net) =
     Inr \<lparr>ValidationResult.valid = JBool True, certification_level = JStr ''production'',
          passed = JList [JStr ''a''], warnings = JList [], errors = JList []\<rparr>"
  using validation_result_fields
      [of "canned_runtime (answer_with 200 gold_body)" "JObj [(''openapi'', JStr ''3.1.0'')]"
          "JObj [(''openapi'', JStr ''3.1.0'')]"
          "\<lparr>status_code = 200, response_text = ''<body>'', json = Some gold_body\<rparr>"
          "[(''valid'', JBool True), (''certification_level'', JStr ''gold''),
            (''passed'', JList [JStr ''a'']), (''warnings'', JList []), (''errors'', JList [])]"
          "JBool True" "JList [JStr ''a'']" "JList []" "JList []" canned_client fresh_net "()"
          "JStr ''gold''"]
    validation_result_fields
      [of "canned_runtime (answer_with 200 ready_body)" "JStr ''a: 1''"
          "JObj [(''a'', JInt 1)]"
          "\<lparr>status_code = 200, response_text = ''<body>'', json = Some ready_body\<rparr>"
          "[(''valid'', JBool True), (''readiness_level'', JStr ''production''),
            (''passed'', JList [JStr ''a'']), (''warnings'', JList []), (''errors'', JList [])]"
          "JBool True" "JList [JStr ''a'']" "JList []" "JList []" canned_client fresh_net "()"
          "JStr ''production''"]
  by (simp add: canned_runtime_def answer_with_def gold_body_def ready_body_def
        load_if_str_def raise_for_status_def fresh_net_def)

text \<open>
  Claim C4. \<^verbatim>\<open>estimate_tokens\<close> makes exactly one call, a \<^verbatim>\<open>POST\<close> to
  \<^verbatim>\<open>estimate/tokens\<close> whose body is the specification under \<^verbatim>\<open>specification\<close> and,
  under \<^verbatim>\<open>options\<close>, the object of \<^verbatim>\<open>model\<close>, \<^verbatim>\<open>requestsPerDay\<close> and
  \<^verbatim>\<open>compressionRatio\<close>. When the service answers with a JSON object, the five cost
  fields of the result (and \<open>model\<close>) are read from the nested
  \<^verbatim>\<open>cost_projections\<close> object, the other fields from the top level. In the example
  \<^verbatim>\<open>cost_projections.daily_cost = 12.5\<close> comes back as \<open>daily_cost = 12.5\<close>.
\<close>

theorem estimate_tokens_request_and_result:
  assumes "load_if_str rt x = Inr p"
    and "body = JObj [(''specification'', p),
                      (''options'', JObj [(''model'', m), (''requestsPerDay'', rpd),
                                          (''compressionRatio'', cr)])]"
  shows "sent (snd (estimate_tokens rt self x m rpd cr n)) =
           sent n @ [post rt self ''estimate/tokens'' body]
       \<and> (transport rt (session self) (post rt self ''estimate/tokens'' body) (remote n)
            = (Response r, s')
          \<and> \<not> raise_for_status r \<and> response.json r = Some (JObj kvs)
          \<and> map_of kvs ''total_tokens'' = Some tt
          \<and> map_of kvs ''compressed_tokens'' = Some ct
          \<and> map_of kvs ''cost_projections'' = Some (JObj cp)
          \<and> map_of cp ''model'' = Some md
          \<and> map_of cp ''daily_cost'' = Some dc
          \<and> map_of cp ''monthly_cost'' = Some mc
          \<and> map_of cp ''annual_cost'' = Some ac
          \<and> map_of cp ''annual_savings'' = Some sv
          \<and> map_of cp ''savings_percentage'' = Some sp
          \<and> map_of kvs ''token_breakdown'' = Some tb
          \<and> map_of kvs ''optimizations'' = Some os
          \<longrightarrow> fst (estimate_tokens rt self x m rpd cr n) =
                Inr \<lparr>total_tokens = tt, compressed_tokens = ct, model = md,
                     daily_cost = dc, monthly_cost = mc, annual_cost = ac,
                     annual_savings = sv, savings_percentage = sp,
                     token_breakdown = tb, optimizations = os\<rparr>)"
proof (intro conjI impI)
  show "sent (snd (estimate_tokens rt self x m rpd cr n)) =
          sent n @ [post rt self ''estimate/tokens'' body]"
    using assms
    by (simp add: estimate_tokens_def estimate_request_body_def sent_make_request
          lstrip_endpoints post_def case_prod_unfold)
next
  assume a: "transport rt (session self) (post rt self ''estimate/tokens'' body) (remote n)
            = (Response r, s')
          \<and> \<not> raise_for_status r \<and> response.json r = Some (JObj kvs)
          \<and> map_of kvs ''total_tokens'' = Some tt
          \<and> map_of kvs ''compressed_tokens'' = Some ct
          \<and> map_of kvs ''cost_projections'' = Some (JObj cp)
          \<and> map_of cp ''model'' = Some md
          \<and> map_of cp ''daily_cost'' = Some dc
          \<and> map_of cp ''monthly_cost'' = Some mc
          \<and> map_of cp ''annual_cost'' = Some ac
          \<and> map_of cp ''annual_savings'' = Some sv
          \<and> map_of cp ''savings_percentage'' = Some sp
          \<and> map_of kvs ''token_breakdown'' = Some tb
          \<and> map_of kvs ''optimizations'' = Some os"
  from a have t: "transport rt (session self) (post rt self ''estimate/tokens'' body) (remote n)
            = (Response r, s')"
    and ok: "\<not> raise_for_status r" and js: "response.json r = Some (JObj kvs)"
    by simp_all
  have "fst (make_request rt self ''POST'' ''/estimate/tokens'' (Some body) n) = Inr (JObj kvs)"
    using t ok js by (intro make_request_ok) (simp_all add: post_def lstrip_endpoints)
  then show "fst (estimate_tokens rt self x m rpd cr n) =
                Inr \<lparr>total_tokens = tt, compressed_tokens = ct, model = md,
                     daily_cost = dc, monthly_cost = mc, annual_cost = ac,
                     annual_savings = sv, savings_percentage = sp,
                     token_breakdown = tb, optimizations = os\<rparr>"
    using assms a
    by (simp add: estimate_tokens_def estimate_request_body_def cost_projection_def
          case_prod_unfold bind_Inr)
qed

theorem estimate_tokens_request_and_result_witness:
  "sent (snd (estimate_tokens (canned_runtime (answer_with 200 estimate_body)) canned_client
           (JStr ''a: 1'') default_model default_requests_per_day default_compression_ratio
           fresh_net)) =
     [\<lparr>http_method = ''POST'',
       url = ''https://api.openapi-ai-agents.org/v1/estimate/tokens'',
       timeout = 30,
       json = Some (JObj [(''specification'', JObj [(''a'', JInt 1)]),
                          (''options'', JObj [(''model'', JStr ''gpt-4-turbo''),
                                              (''requestsPerDay'', JInt 1000),
                                              (''compressionRatio'', JFloat 0.7)])])\<rparr>]
   \<and> daily_cost (projr (fst (estimate_tokens (canned_runtime (answer_with 200 estimate_body))
        canned_client (JStr ''a: 1'') default_model default_requests_per_day
        default_compression_ratio fresh_net))) = JFloat 12.5"
  using estimate_tokens_request_and_result
      [of "canned_runtime (answer_with 200 estimate_body)" "JStr ''a: 1''"
          "JObj [(''a'', JInt 1)]"
          "JObj [(''specification'', JObj [(''a'', JInt 1)]),
                 (''options'', JObj [(''model'', JStr ''gpt-4-turbo''),
                                     (''requestsPerDay'', JInt 1000),
                                     (''compressionRatio'', JFloat 0.7)])]"
          "JStr ''gpt-4-turbo''" "JInt 1000" "JFloat 0.7" canned_client fresh_net
          "\<lparr>status_code = 200, response_text = ''<body>'', json = Some estimate_body\<rparr>"
          "()"
          "[(''total_tokens'', JInt 1200), (''compressed_tokens'', JInt 840),
           (''cost_projections'',
              JObj [(''model'', JStr ''gpt-4-turbo''), (''daily_cost'', JFloat 12.5),
                    (''monthly_cost'', JFloat 375), (''annual_cost'', JFloat 4562.5),
                    (''annual_savings'', JFloat 1955.5), (''savings_percentage'', JFloat 30)]),
           (''token_breakdown'', JObj [(''paths'', JInt 700)]),
           (''optimizations'', JList [])]"
          "JInt 1200" "JInt 840"
          "[(''model'', JStr ''gpt-4-turbo''), (''daily_cost'', JFloat 12.5),
            (''monthly_cost'', JFloat 375), (''annual_cost'', JFloat 4562.5),
            (''annual_savings'', JFloat 1955.5), (''savings_percentage'', JFloat 30)]"
          "JStr ''gpt-4-turbo''" "JFloat 12.5" "JFloat 375" "JFloat 4562.5" "JFloat 1955.5"
          "JFloat 30" "JObj [(''paths'', JInt 700)]" "JList []"]
  by (simp add: canned_runtime_def answer_with_def estimate_body_def load_if_str_def
        raise_for_status_def fresh_net_def post_def canned_client_fields default_model_def
        default_requests_per_day_def default_compression_ratio_def)

subsection \<open>Optional list arguments\<close>

lemma with_optional_empty: "with_optional key (Some []) payload = with_optional key None payload"
  by (simp add: with_optional_def)

text \<open>
  Claim C9. For \<^verbatim>\<open>validate_compliance\<close> and \<^verbatim>\<open>validate_protocols\<close>, the empty list
  and \<^verbatim>\<open>None\<close> for the optional argument give the same run: the same result and the
  same calls. In both cases the body sent is the one-entry object with
  \<^verbatim>\<open>configuration\<close> only, so the \<^verbatim>\<open>frameworks\<close> (or \<^verbatim>\<open>protocols\<close>) field is
  left out.
\<close>

theorem empty_list_as_none:
  assumes "load_if_str rt x = Inr p"
  shows "validate_compliance rt self x (Some []) n = validate_compliance rt self x None n
       \<and> validate_protocols rt self x (Some []) n = validate_protocols rt self x None n
       \<and> sent (snd (validate_compliance rt self x None n)) =
           sent n @ [post rt self ''validate/compliance'' (JObj [(''configuration'', p)])]
       \<and> sent (snd (validate_protocols rt self x None n)) =
           sent n @ [post rt self ''validate/protocols'' (JObj [(''configuration'', p)])]"
  using assms
  by (simp add: validate_compliance_def validate_protocols_def with_optional_def Let_def
        sent_make_request lstrip_endpoints post_def case_prod_unfold)

theorem empty_list_as_none_witness:
  "validate_compliance (canned_runtime (answer_with 200 gold_body)) canned_client
       (JStr ''a: 1'') (Some []) fresh_net =
     validate_compliance (canned_runtime (answer_with 200 gold_body)) canned_client
       (JStr ''a: 1'') None fresh_net
   \<and> sent (snd (validate_protocols (canned_runtime (answer_with 200 gold_body)) canned_client
       (JStr ''a: 1'') (Some []) fresh_net)) =
     [\<lparr>http_method = ''POST'',
       url = ''https://api.openapi-ai-agents.org/v1/validate/protocols'',
       timeout = 30,
       json = Some (JObj [(''configuration'', JObj [(''a'', JInt 1)])])\<rparr>]"
  using empty_list_as_none
      [of "canned_runtime (answer_with 200 gold_body)" "JStr ''a: 1''" "JObj [(''a'', JInt 1)]"
          canned_client fresh_net]
  by (simp add: canned_runtime_def load_if_str_def fresh_net_def post_def canned_client_fields)

subsection \<open>Error classification\<close>


text \<open>
  The last branch of the handler, the bare \<^verbatim>\<open>raise\<close> for a status below 400, is never
  taken: \<^verbatim>\<open>raise_for_status\<close> raises for statuses from 400 on only, so no
  \<^verbatim>\<open>HTTPError\<close> ever leaves the request helper.
\<close>

lemma dict_get_error: "dict_get a k = Inl e \<Longrightarrow> e = AttributeError"
  by (cases a) auto

lemma handler_never_reraises:
  "raise_for_status r \<Longrightarrow> handle_HTTPError rt r \<noteq> HTTPError msg"
  by (cases "response.json r")
     (auto simp: handle_HTTPError_def raise_for_status_def
        split: option.splits sum.splits dest: dict_get_error)

lemma reraise_unreachable: "fst (make_request rt self m e b n) \<noteq> Inl (HTTPError msg)"
  by (auto simp: make_request_def session_request_def Let_def handler_never_reraises
        split: prod.splits outcome.splits option.splits)


subsection \<open>Validate and estimate\<close>

lemma sent_validate_openapi:
  "sent (snd (validate_openapi rt self x n)) =
     (case load_if_str rt x of
        Inl e \<Rightarrow> sent n
      | Inr p \<Rightarrow> sent n @ [post rt self ''validate/openapi'' (JObj [(''specification'', p)])])"
  by (simp add: validate_openapi_def sent_make_request lstrip_endpoints post_def
        case_prod_unfold split: sum.splits)

lemma sent_estimate_tokens:
  "sent (snd (estimate_tokens rt self x m rpd cr n)) =
     (case load_if_str rt x of
        Inl e \<Rightarrow> sent n
      | Inr p \<Rightarrow> sent n @ [post rt self ''estimate/tokens'' (estimate_request_body p m rpd cr)])"
  by (simp add: estimate_tokens_def sent_make_request lstrip_endpoints post_def
        case_prod_unfold split: sum.splits)

lemma validate_openapi_returns:
  "fst (validate_openapi rt self x n) = Inr v \<Longrightarrow> \<exists>p. load_if_str rt x = Inr p"
  by (cases "load_if_str rt x") (simp_all add: validate_openapi_def)

lemma sent_estimate_tokens_kw:
  "length (sent (snd (estimate_tokens_kw rt self x kw n))) \<le> length (sent n) + 1"
  by (simp add: estimate_tokens_kw_def sent_estimate_tokens split: sum.splits)

lemma estimate_tokens_kw_returns:
  assumes "estimate_tokens_kw rt self x kw n = (Inr e, n')"
  shows "estimate_tokens rt self x (kwarg kw ''model'' default_model)
           (kwarg kw ''requests_per_day'' default_requests_per_day)
           (kwarg kw ''compression_ratio'' default_compression_ratio) n = (Inr e, n')"
  using assms by (simp add: estimate_tokens_kw_def split: if_splits)

lemma option_names_no_clash:
  "list_all (\<lambda>(k, v). k \<in> set [''model'', ''requests_per_day'', ''compression_ratio'']) kw
     \<Longrightarrow> \<not> list_ex (\<lambda>(k, v). k \<in> set [''self'', ''specification'']) kw"
  by (induction kw) auto

text \<open>
  Claim C6. For options that name parameters of \<^verbatim>\<open>estimate_tokens\<close>,
  \<^verbatim>\<open>validate_and_estimate\<close> makes the \<^verbatim>\<open>validate_openapi\<close> call and then, from where
  that call ended, the \<^verbatim>\<open>estimate_tokens\<close> call on the same specification and with
  these options, and returns the pair of their results in that order; when the first
  call raises, its exception is the outcome and no second call is made; when the second
  raises, its exception is the outcome. Conversely, whenever a pair is returned it is
  the pair of these two results, and the calls sent are exactly two: the \<^verbatim>\<open>POST\<close> to
  \<^verbatim>\<open>validate/openapi\<close> and then the \<^verbatim>\<open>POST\<close> to \<^verbatim>\<open>estimate/tokens\<close>. Whether it
  returns or raises, it never sends more than these two.
\<close>

theorem validate_and_estimate_calls:
  "(list_all (\<lambda>(k, v). k \<in> set [''model'', ''requests_per_day'', ''compression_ratio'']) kw \<longrightarrow>
      (validate_openapi rt self x n = (Inr v, n')
         \<and> estimate_tokens rt self x (kwarg kw ''model'' default_model)
              (kwarg kw ''requests_per_day'' default_requests_per_day)
              (kwarg kw ''compression_ratio'' default_compression_ratio) n' = (Inr e, n'')
         \<longrightarrow> validate_and_estimate rt self x kw n = (Inr (v, e), n''))
    \<and> (validate_openapi rt self x n = (Inl err, n')
         \<longrightarrow> validate_and_estimate rt self x kw n = (Inl err, n'))
    \<and> (validate_openapi rt self x n = (Inr v, n')
         \<and> estimate_tokens rt self x (kwarg kw ''model'' default_model)
              (kwarg kw ''requests_per_day'' default_requests_per_day)
              (kwarg kw ''compression_ratio'' default_compression_ratio) n' = (Inl err, n'')
         \<longrightarrow> validate_and_estimate rt self x kw n = (Inl err, n'')))
   \<and> (validate_and_estimate rt self x kw n = (Inr (v, e), n'') \<longrightarrow>
      (\<exists>p n'. load_if_str rt x = Inr p
         \<and> validate_openapi rt self x n = (Inr v, n')
         \<and> estimate_tokens rt self x (kwarg kw ''model'' default_model)
              (kwarg kw ''requests_per_day'' default_requests_per_day)
              (kwarg kw ''compression_ratio'' default_compression_ratio) n' = (Inr e, n'')
         \<and> sent n'' =
             sent n @
             [post rt self ''validate/openapi'' (JObj [(''specification'', p)]),
              post rt self ''estimate/tokens''
                (JObj [(''specification'', p),
                       (''options'',
                          JObj [(''model'', kwarg kw ''model'' default_model),
                                (''requestsPerDay'',
                                   kwarg kw ''requests_per_day'' default_requests_per_day),
                                (''compressionRatio'',
                                   kwarg kw ''compression_ratio''
                                     default_compression_ratio)])])]))
   \<and> length (sent (snd (validate_and_estimate rt self x kw n))) \<le> length (sent n) + 2"
proof (intro conjI impI)
  assume k: "list_all (\<lambda>(k, v). k \<in> set [''model'', ''requests_per_day'', ''compression_ratio'']) kw"
  assume "validate_openapi rt self x n = (Inr v, n')
         \<and> estimate_tokens rt self x (kwarg kw ''model'' default_model)
              (kwarg kw ''requests_per_day'' default_requests_per_day)
              (kwarg kw ''compression_ratio'' default_compression_ratio) n' = (Inr e, n'')"
  then show "validate_and_estimate rt self x kw n = (Inr (v, e), n'')"
    using k option_names_no_clash [OF k]
    by (simp add: validate_and_estimate_def estimate_tokens_kw_def)
next
  assume k: "list_all (\<lambda>(k, v). k \<in> set [''model'', ''requests_per_day'', ''compression_ratio'']) kw"
  assume "validate_openapi rt self x n = (Inl err, n')"
  then show "validate_and_estimate rt self x kw n = (Inl err, n')"
    using option_names_no_clash [OF k] by (simp add: validate_and_estimate_def)
next
  assume k: "list_all (\<lambda>(k, v). k \<in> set [''model'', ''requests_per_day'', ''compression_ratio'']) kw"
  assume "validate_openapi rt self x n = (Inr v, n')
         \<and> estimate_tokens rt self x (kwarg kw ''model'' default_model)
              (kwarg kw ''requests_per_day'' default_requests_per_day)
              (kwarg kw ''compression_ratio'' default_compression_ratio) n' = (Inl err, n'')"
  then show "validate_and_estimate rt self x kw n = (Inl err, n'')"
    using k option_names_no_clash [OF k]
    by (simp add: validate_and_estimate_def estimate_tokens_kw_def)
next
  assume a: "validate_and_estimate rt self x kw n = (Inr (v, e), n'')"
  obtain r1 n1 where v1: "validate_openapi rt self x n = (r1, n1)"
    by (cases "validate_openapi rt self x n")
  obtain r2 n2 where e1: "estimate_tokens_kw rt self x kw n1 = (r2, n2)"
    by (cases "estimate_tokens_kw rt self x kw n1")
  from a v1 e1 have r1: "r1 = Inr v" and r2: "r2 = Inr e" and n2: "n2 = n''"
    by (auto simp: validate_and_estimate_def split: sum.splits if_splits)
  from v1 r1 obtain p where p: "load_if_str rt x = Inr p"
    using validate_openapi_returns [of rt self x n v] by auto
  have s1: "sent n1 = sent n @ [post rt self ''validate/openapi'' (JObj [(''specification'', p)])]"
    using sent_validate_openapi [of rt self x n] v1 p by simp
  have e2: "estimate_tokens rt self x (kwarg kw ''model'' default_model)
              (kwarg kw ''requests_per_day'' default_requests_per_day)
              (kwarg kw ''compression_ratio'' default_compression_ratio) n1 = (Inr e, n'')"
    using e1 r2 n2 by (intro estimate_tokens_kw_returns) simp
  have s2: "sent n'' = sent n1 @
              [post rt self ''estimate/tokens''
                 (estimate_request_body p (kwarg kw ''model'' default_model)
                    (kwarg kw ''requests_per_day'' default_requests_per_day)
                    (kwarg kw ''compression_ratio'' default_compression_ratio))]"
    using sent_estimate_tokens [of rt self x "kwarg kw ''model'' default_model"
        "kwarg kw ''requests_per_day'' default_requests_per_day"
        "kwarg kw ''compression_ratio'' default_compression_ratio" n1] e2 p
    by simp
  show "\<exists>p n'. load_if_str rt x = Inr p
         \<and> validate_openapi rt self x n = (Inr v, n')
         \<and> estimate_tokens rt self x (kwarg kw ''model'' default_model)
              (kwarg kw ''requests_per_day'' default_requests_per_day)
              (kwarg kw ''compression_ratio'' default_compression_ratio) n' = (Inr e, n'')
         \<and> sent n'' =
             sent n @
             [post rt self ''validate/openapi'' (JObj [(''specification'', p)]),
              post rt self ''estimate/tokens''
                (JObj [(''specification'', p),
                       (''options'',
                          JObj [(''model'', kwarg kw ''model'' default_model),
                                (''requestsPerDay'',
                                   kwarg kw ''requests_per_day'' default_requests_per_day),
                                (''compressionRatio'',
                                   kwarg kw ''compression_ratio''
                                     default_compression_ratio)])])]"
    using p v1 r1 e2 s1 s2 by (auto simp: estimate_request_body_def)
next
  obtain r1 n1 where v1: "validate_openapi rt self x n = (r1, n1)"
    by (cases "validate_openapi rt self x n")
  have l1: "length (sent n1) \<le> length (sent n) + 1"
    using sent_validate_openapi [of rt self x n] v1 by (simp split: sum.splits)
  have l2: "length (sent (snd (estimate_tokens_kw rt self x kw n1))) \<le> length (sent n1) + 1"
    by (rule sent_estimate_tokens_kw)
  show "length (sent (snd (validate_and_estimate rt self x kw n))) \<le> length (sent n) + 2"
    using v1 l1 l2
    by (cases r1; cases "estimate_tokens_kw rt self x kw n1")
       (auto simp: validate_and_estimate_def split: sum.splits)
qed

theorem validate_and_estimate_calls_witness:
  "validate_and_estimate (canned_runtime (answer_with 200 full_body)) canned_client
     (JStr ''a: 1'') [(''model'', JStr ''gpt-4'')] fresh_net =
   (Inr (\<lparr>ValidationResult.valid = JBool True, certification_level = JStr ''gold'',
          passed = JList [JStr ''a''], warnings = JList [], errors = JList []\<rparr>,
         \<lparr>total_tokens = JInt 1200, compressed_tokens = JInt 840, model = JStr ''gpt-4'',
          daily_cost = JFloat 12.5, monthly_cost = JFloat 375, annual_cost = JFloat 4562.5,
          annual_savings = JFloat 1955.5, savings_percentage = JFloat 30,
          token_breakdown = JObj [], optimizations = JList []\<rparr>),
    \<lparr>sent =
       [\<lparr>http_method = ''POST'',
         url = ''https://api.openapi-ai-agents.org/v1/validate/openapi'',
         timeout = 30,
         json = Some (JObj [(''specification'', JObj [(''a'', JInt 1)])])\<rparr>,
        \<lparr>http_method = ''POST'',
         url = ''https://api.openapi-ai-agents.org/v1/estimate/tokens'',
         timeout = 30,
         json = Some (JObj [(''specification'', JObj [(''a'', JInt 1)]),
                            (''options'', JObj [(''model'', JStr ''gpt-4''),
                                                (''requestsPerDay'', JInt 1000),
                                                (''compressionRatio'', JFloat 0.7)])])\<rparr>],
      remote = ()\<rparr>)
   \<and> fst (validate_and_estimate (canned_runtime (answer_text 401 ''denied'')) canned_client
          (JStr ''a: 1'') [(''model'', JStr ''gpt-4'')] fresh_net) =
     Inl (ValueError ''Invalid API key'')
   \<and> length (sent (snd (validate_and_estimate (canned_runtime (answer_text 401 ''denied''))
          canned_client (JStr ''a: 1'') [(''model'', JStr ''gpt-4'')] fresh_net))) \<le> 2"
  using validate_and_estimate_calls
      [where rt = "canned_runtime (answer_with 200 full_body)" and self = canned_client
         and x = "JStr ''a: 1''" and kw = "[(''model'', JStr ''gpt-4'')]" and n = fresh_net
         and v = "\<lparr>ValidationResult.valid = JBool True, certification_level = JStr ''gold'',
                   passed = JList [JStr ''a''], warnings = JList [], errors = JList []\<rparr>"
         and e = "\<lparr>total_tokens = JInt 1200, compressed_tokens = JInt 840,
                   model = JStr ''gpt-4'', daily_cost = JFloat 12.5,
                   monthly_cost = JFloat 375, annual_cost = JFloat 4562.5,
                   annual_savings = JFloat 1955.5, savings_percentage = JFloat 30,
                   token_breakdown = JObj [], optimizations = JList []\<rparr>"
         and n' = "\<lparr>sent =
            [\<lparr>http_method = ''POST'',
              url = ''https://api.openapi-ai-agents.org/v1/validate/openapi'',
              timeout = 30,
              json = Some (JObj [(''specification'', JObj [(''a'', JInt 1)])])\<rparr>],
            remote = ()\<rparr>"
         and n'' = "\<lparr>sent =
            [\<lparr>http_method = ''POST'',
              url = ''https://api.openapi-ai-agents.org/v1/validate/openapi'',
              timeout = 30,
              json = Some (JObj [(''specification'', JObj [(''a'', JInt 1)])])\<rparr>,
             \<lparr>http_method = ''POST'',
              url = ''https://api.openapi-ai-agents.org/v1/estimate/tokens'',
              timeout = 30,
              json = Some (JObj [(''specification'', JObj [(''a'', JInt 1)]),
                                 (''options'', JObj [(''model'', JStr ''gpt-4''),
                                                     (''requestsPerDay'', JInt 1000),
                                                     (''compressionRatio'', JFloat 0.7)])])\<rparr>],
            remote = ()\<rparr>"]
    validate_and_estimate_calls
      [where rt = "canned_runtime (answer_text 401 ''denied'')" and self = canned_client
         and x = "JStr ''a: 1''" and kw = "[(''model'', JStr ''gpt-4'')]" and n = fresh_net
         and err = "ValueError ''Invalid API key''"
         and n' = "\<lparr>sent =
            [\<lparr>http_method = ''POST'',
              url = ''https://api.openapi-ai-agents.org/v1/validate/openapi'',
              timeout = 30,
              json = Some (JObj [(''specification'', JObj [(''a'', JInt 1)])])\<rparr>],
            remote = ()\<rparr>"]
  by (simp add: validate_openapi_def estimate_tokens_def estimate_request_body_def
        cost_projection_def kwarg_def load_if_str_def make_request_def session_request_def
        handle_HTTPError_def raise_for_status_def canned_runtime_def answer_with_def
        answer_text_def full_body_def fresh_net_def bind_Inr bind_Inl canned_client_fields
        lstrip_endpoints default_model_def default_requests_per_day_def
        default_compression_ratio_def)

subsection \<open>The command line\<close>

lemma main_try_exit:
  "fst (main_try rt key spec_file n) = Inr (Some code) \<Longrightarrow> code = 1"
  by (auto simp: main_try_def Let_def bind_def
        split: sum.splits prod.splits if_splits option.splits)

lemma main_exit_range: "fst (main rt environ argv n) = 0 \<or> fst (main rt environ argv n) = 1"
proof (cases "length argv < 2 \<or> api_key_from environ argv = None
                \<or> api_key_from environ argv = Some []")
  case True
  then show ?thesis by (auto simp: main_def)
next
  case False
  then obtain key where k: "api_key_from environ argv = Some key" "key \<noteq> []" "\<not> length argv < 2"
    by auto
  obtain r n' where t: "main_try rt key (argv ! 1) n = (r, n')"
    by (cases "main_try rt key (argv ! 1) n")
  show ?thesis
  proof (cases r)
    case (Inl e)
    with k t show ?thesis by (simp add: main_def)
  next
    case (Inr c)
    show ?thesis
    proof (cases c)
      case None
      with Inr k t show ?thesis by (simp add: main_def)
    next
      case (Some code)
      with Inr t have "code = 1" using main_try_exit [of rt key "argv ! 1" n code] by simp
      with Some Inr k t show ?thesis by (simp add: main_def)
    qed
  qed
qed

lemma main_try_completes:
  "fst (main_try rt key spec_file n) = Inr None \<longleftrightarrow>
     (\<exists>spec v n1 est n2.
        load_specification rt spec_file = Inr spec
      \<and> validate_openapi rt (cli_client key) spec n = (Inr v, n1)
      \<and> truthy (ValidationResult.valid v) \<and> print_passed v = Inr ()
      \<and> estimate_tokens rt (cli_client key) spec default_model default_requests_per_day
           default_compression_ratio n1 = (Inr est, n2)
      \<and> print_estimation rt est = Inr ())"
  by (auto simp: main_try_def cli_client_def Let_def bind_def
        split: sum.splits prod.splits if_splits option.splits)

lemma api_key_header:
  "map_of (headers (session (init key b t mr))) ''X-API-Key'' = Some key"
  by (simp add: init_def Let_def headers_update_def mount_def new_Session_def)

text \<open>
  Claim C8. The script takes the API key from the second argument when there is one and
  from the environment variable \<^verbatim>\<open>OPENAPI_AI_AGENTS_KEY\<close> otherwise, and that key is the
  \<^verbatim>\<open>X-API-Key\<close> header of the client it builds. Its exit code is 0 or 1. It is 1, with
  no request made, when the specification file or the key is missing (no key or an empty
  one). With a key, it is 1 when loading the file raises, when the validation call
  raises, when the validation result is not valid, when the estimation call raises and
  when printing a result raises; it is 0 when all of these succeed.
\<close>

theorem cli_exit_code:
  "(2 < length argv \<longrightarrow> api_key_from environ argv = Some (argv ! 2))
   \<and> (length argv \<le> 2 \<longrightarrow> api_key_from environ argv = environ ''OPENAPI_AI_AGENTS_KEY'')
   \<and> map_of (headers (session (cli_client key))) ''X-API-Key'' = Some key
   \<and> (fst (main rt environ argv n) = 0 \<or> fst (main rt environ argv n) = 1)
   \<and> (length argv < 2 \<or> api_key_from environ argv = None
         \<or> api_key_from environ argv = Some [] \<longrightarrow> main rt environ argv n = (1, n))
   \<and> (2 \<le> length argv \<and> api_key_from environ argv = Some key \<and> key \<noteq> [] \<longrightarrow>
        (load_specification rt (argv ! 1) = Inl e \<longrightarrow> fst (main rt environ argv n) = 1)
      \<and> (load_specification rt (argv ! 1) = Inr spec \<longrightarrow>
           (fst (validate_openapi rt (cli_client key) spec n) = Inl e
              \<longrightarrow> fst (main rt environ argv n) = 1)
         \<and> (validate_openapi rt (cli_client key) spec n = (Inr v, n1) \<longrightarrow>
              (\<not> truthy (ValidationResult.valid v) \<longrightarrow> fst (main rt environ argv n) = 1)
            \<and> (truthy (ValidationResult.valid v) \<longrightarrow>
                 (print_passed v = Inl e \<longrightarrow> fst (main rt environ argv n) = 1)
               \<and> (print_passed v = Inr () \<longrightarrow>
                    (fst (estimate_tokens rt (cli_client key) spec default_model
                            default_requests_per_day default_compression_ratio n1) = Inl e
                       \<longrightarrow> fst (main rt environ argv n) = 1)
                  \<and> (estimate_tokens rt (cli_client key) spec default_model
                        default_requests_per_day default_compression_ratio n1 = (Inr est, n2)
                       \<longrightarrow> (print_estimation rt est = Inl e
                               \<longrightarrow> fst (main rt environ argv n) = 1)
                          \<and> (print_estimation rt est = Inr ()
                               \<longrightarrow> main rt environ argv n = (0, n2))))))))"
proof (intro conjI)
  show "2 < length argv \<longrightarrow> api_key_from environ argv = Some (argv ! 2)"
    by (simp add: api_key_from_def)
  show "length argv \<le> 2 \<longrightarrow> api_key_from environ argv = environ ''OPENAPI_AI_AGENTS_KEY''"
    by (simp add: api_key_from_def)
  show "map_of (headers (session (cli_client key))) ''X-API-Key'' = Some key"
    by (simp add: cli_client_def api_key_header)
  show "fst (main rt environ argv n) = 0 \<or> fst (main rt environ argv n) = 1"
    by (rule main_exit_range)
  show "length argv < 2 \<or> api_key_from environ argv = None
         \<or> api_key_from environ argv = Some [] \<longrightarrow> main rt environ argv n = (1, n)"
    by (auto simp: main_def)
  show "2 \<le> length argv \<and> api_key_from environ argv = Some key \<and> key \<noteq> [] \<longrightarrow>
        (load_specification rt (argv ! 1) = Inl e \<longrightarrow> fst (main rt environ argv n) = 1)
      \<and> (load_specification rt (argv ! 1) = Inr spec \<longrightarrow>
           (fst (validate_openapi rt (cli_client key) spec n) = Inl e
              \<longrightarrow> fst (main rt environ argv n) = 1)
         \<and> (validate_openapi rt (cli_client key) spec n = (Inr v, n1) \<longrightarrow>
              (\<not> truthy (ValidationResult.valid v) \<longrightarrow> fst (main rt environ argv n) = 1)
            \<and> (truthy (ValidationResult.valid v) \<longrightarrow>
                 (print_passed v = Inl e \<longrightarrow> fst (main rt environ argv n) = 1)
               \<and> (print_passed v = Inr () \<longrightarrow>
                    (fst (estimate_tokens rt (cli_client key) spec default_model
                            default_requests_per_day default_compression_ratio n1) = Inl e
                       \<longrightarrow> fst (main rt environ argv n) = 1)
                  \<and> (estimate_tokens rt (cli_client key) spec default_model
                        default_requests_per_day default_compression_ratio n1 = (Inr est, n2)
                       \<longrightarrow> (print_estimation rt est = Inl e
                               \<longrightarrow> fst (main rt environ argv n) = 1)
                          \<and> (print_estimation rt est = Inr ()
                               \<longrightarrow> main rt environ argv n = (0, n2)))))))"
    by (auto simp: main_def main_try_def cli_client_def Let_def bind_def
          split: sum.splits prod.splits option.splits)
qed

lemma cli_client_secret: "cli_client ''secret'' = canned_client"
  by (simp add: cli_client_def canned_client_def)

theorem cli_exit_code_witness:
  "main (canned_runtime (answer_with 200 full_body)) (\<lambda>name. None)
     [''client.py'', ''spec.yaml'', ''secret''] fresh_net =
     (0, \<lparr>sent =
            [\<lparr>http_method = ''POST'',
              url = ''https://api.openapi-ai-agents.org/v1/validate/openapi'',
              timeout = 30,
              json = Some (JObj [(''specification'', JObj [(''a'', JInt 1)])])\<rparr>,
             \<lparr>http_method = ''POST'',
              url = ''https://api.openapi-ai-agents.org/v1/estimate/tokens'',
              timeout = 30,
              json = Some (JObj [(''specification'', JObj [(''a'', JInt 1)]),
                                 (''options'', JObj [(''model'', JStr ''gpt-4-turbo''),
                                                     (''requestsPerDay'', JInt 1000),
                                                     (''compressionRatio'', JFloat 0.7)])])\<rparr>],
          remote = ()\<rparr>)
   \<and> main (canned_runtime (answer_with 200 full_body)) (\<lambda>name. None)
          [''client.py'', ''spec.yaml''] fresh_net = (1, fresh_net)
   \<and> fst (main (canned_runtime (answer_with 200 invalid_body))
          (\<lambda>name. if name = ''OPENAPI_AI_AGENTS_KEY'' then Some ''secret'' else None)
          [''client.py'', ''spec.json''] fresh_net) = 1
   \<and> fst (main (canned_runtime (answer_text 401 ''denied''))
          (\<lambda>name. if name = ''OPENAPI_AI_AGENTS_KEY'' then Some ''secret'' else None)
          [''client.py'', ''spec.json''] fresh_net) = 1"
  using cli_exit_code
      [where argv = "[''client.py'', ''spec.yaml'', ''secret'']" and environ = "\<lambda>name. None"
         and rt = "canned_runtime (answer_with 200 full_body)" and n = fresh_net
         and key = "''secret''" and spec = "JObj [(''a'', JInt 1)]"
         and v = "\<lparr>ValidationResult.valid = JBool True, certification_level = JStr ''gold'',
                   passed = JList [JStr ''a''], warnings = JList [], errors = JList []\<rparr>"
         and ?n1.0 = "\<lparr>sent =
            [\<lparr>http_method = ''POST'',
              url = ''https://api.openapi-ai-agents.org/v1/validate/openapi'',
              timeout = 30,
              json = Some (JObj [(''specification'', JObj [(''a'', JInt 1)])])\<rparr>],
            remote = ()\<rparr>"
         and est = "\<lparr>total_tokens = JInt 1200, compressed_tokens = JInt 840,
                     model = JStr ''gpt-4'', daily_cost = JFloat 12.5,
                     monthly_cost = JFloat 375, annual_cost = JFloat 4562.5,
                     annual_savings = JFloat 1955.5, savings_percentage = JFloat 30,
                     token_breakdown = JObj [], optimizations = JList []\<rparr>"
         and ?n2.0 = "\<lparr>sent =
            [\<lparr>http_method = ''POST'',
              url = ''https://api.openapi-ai-agents.org/v1/validate/openapi'',
              timeout = 30,
              json = Some (JObj [(''specification'', JObj [(''a'', JInt 1)])])\<rparr>,
             \<lparr>http_method = ''POST'',
              url = ''https://api.openapi-ai-agents.org/v1/estimate/tokens'',
              timeout = 30,
              json = Some (JObj [(''specification'', JObj [(''a'', JInt 1)]),
                                 (''options'', JObj [(''model'', JStr ''gpt-4-turbo''),
                                                     (''requestsPerDay'', JInt 1000),
                                                     (''compressionRatio'', JFloat 0.7)])])\<rparr>],
            remote = ()\<rparr>"]
    cli_exit_code
      [where argv = "[''client.py'', ''spec.yaml'']" and environ = "\<lambda>name. None"
         and rt = "canned_runtime (answer_with 200 full_body)" and n = fresh_net]
    cli_exit_code
      [where argv = "[''client.py'', ''spec.json'']"
         and environ = "\<lambda>name. if name = ''OPENAPI_AI_AGENTS_KEY'' then Some ''secret'' else None"
         and rt = "canned_runtime (answer_with 200 invalid_body)" and n = fresh_net
         and key = "''secret''" and spec = "JObj [(''a'', JInt 1)]"
         and v = "\<lparr>ValidationResult.valid = JBool False, certification_level = JStr ''none'',
                   passed = JList [], warnings = JList [],
                   errors = JList [JStr ''missing info'']\<rparr>"
         and ?n1.0 = "\<lparr>sent =
            [\<lparr>http_method = ''POST'',
              url = ''https://api.openapi-ai-agents.org/v1/validate/openapi'',
              timeout = 30,
              json = Some (JObj [(''specification'', JObj [(''a'', JInt 1)])])\<rparr>],
            remote = ()\<rparr>"]
    cli_exit_code
      [where argv = "[''client.py'', ''spec.json'']"
         and environ = "\<lambda>name. if name = ''OPENAPI_AI_AGENTS_KEY'' then Some ''secret'' else None"
         and rt = "canned_runtime (answer_text 401 ''denied'')" and n = fresh_net
         and key = "''secret''" and spec = "JObj [(''a'', JInt 1)]"
         and e = "ValueError ''Invalid API key''"]
  by (simp add: api_key_from_def load_specification_def endswith_def validate_openapi_def
        estimate_tokens_def estimate_request_body_def cost_projection_def load_if_str_def
        make_request_def session_request_def handle_HTTPError_def raise_for_status_def
        print_passed_def print_estimation_def canned_runtime_def answer_with_def
        answer_text_def full_body_def invalid_body_def fresh_net_def bind_def
        cli_client_secret canned_client_fields lstrip_endpoints default_model_def
        default_requests_per_day_def default_compression_ratio_def)

subsection \<open>The session of the library\<close>

lemma adapters_init:
  "adapters (session (init k b t mr)) =
     [(''https://'', \<lparr>max_retries = retry_strategy mr\<rparr>),
      (''http://'', \<lparr>max_retries = retry_strategy mr\<rparr>)]"
  by (simp add: init_def Let_def mount_def headers_update_def new_Session_def)

lemma get_adapter_init:
  assumes "startswith (str_lower u) ''https://'' \<or> startswith (str_lower u) ''http://''"
  shows "get_adapter (session (init k b t mr)) u = Some \<lparr>max_retries = retry_strategy mr\<rparr>"
proof -
  have l: "str_lower ''https://'' = ''https://''" "str_lower ''http://'' = ''http://''"
    by (simp_all add: str_lower_def ascii_lower_def)
  show ?thesis
    using assms by (auto simp: get_adapter_def adapters_init l)
qed

lemma urlopen_not_retried:
  assumes "serve req (service w) = (a, s')"
    and "\<not> is_retry retries (http_method req) (status_code (reply a)) (retry_after a)"
  shows "urlopen serve retries req w =
           (Inr (reply a), \<lparr>exchanges = exchanges w @ [req], service = s'\<rparr>)"
  using assms by (subst urlopen.simps) simp

lemma urlopen_exhausted:
  assumes "serve req (service w) = (a, s')"
    and "is_retry retries (http_method req) (status_code (reply a)) (retry_after a)"
    and "total retries - 1 < 0"
  shows "urlopen serve retries req w =
           (Inl (RetryError (status_code (reply a))),
            \<lparr>exchanges = exchanges w @ [req], service = s'\<rparr>)"
  using assms by (subst urlopen.simps) simp

lemma urlopen_again:
  assumes "serve req (service w) = (a, s')"
    and "is_retry retries (http_method req) (status_code (reply a)) (retry_after a)"
    and "\<not> total retries - 1 < 0"
  shows "urlopen serve retries req w =
           urlopen serve (retries\<lparr>total := total retries - 1\<rparr>) req
             \<lparr>exchanges = exchanges w @ [req], service = s'\<rparr>"
  using assms by (subst urlopen.simps) simp

lemma canned_get_adapter:
  "get_adapter (session canned_client) (''https://api.openapi-ai-agents.org/v1/'' @ path) =
     Some \<lparr>max_retries = retry_strategy default_max_retries\<rparr>"
  unfolding canned_client_def
  by (rule get_adapter_init) (simp add: startswith_def str_lower_def ascii_lower_def)

lemma is_retry_total [simp]:
  "status \<in> set (status_forcelist r) \<Longrightarrow>
     is_retry (r\<lparr>total := k\<rparr>) m status ra = is_retry r m status ra"
  by (simp add: is_retry_def is_method_retryable_def)

lemma urlopen_forced:
  assumes "\<forall>q s. fst (serve q s) = a"
    and "is_method_retryable r (http_method req)"
    and "status_code (reply a) \<in> set (status_forcelist r)"
    and "nat (total r) = k"
  shows "fst (urlopen serve r req w) = Inl (RetryError (status_code (reply a)))
       \<and> exchanges (snd (urlopen serve r req w)) = exchanges w @ replicate (k + 1) req"
  using assms
proof (induction k arbitrary: r w)
  case 0
  obtain s' where s: "serve req (service w) = (a, s')"
    using "0.prems"(1) by (metis prod.collapse)
  have retry: "is_retry r (http_method req) (status_code (reply a)) (retry_after a)"
    using "0.prems" by (simp add: is_retry_def)
  have "total r - 1 < 0" using "0.prems"(4) by simp
  then have "urlopen serve r req w =
           (Inl (RetryError (status_code (reply a))),
            \<lparr>exchanges = exchanges w @ [req], service = s'\<rparr>)"
    using s retry by (intro urlopen_exhausted) auto
  then show ?case by simp
next
  case (Suc k)
  obtain s' where s: "serve req (service w) = (a, s')"
    using Suc.prems(1) by (metis prod.collapse)
  have retry: "is_retry r (http_method req) (status_code (reply a)) (retry_after a)"
    using Suc.prems by (simp add: is_retry_def)
  have more: "\<not> total r - 1 < 0" using Suc.prems(4) by simp
  have k: "nat (total (r\<lparr>total := total r - 1\<rparr>)) = k" using Suc.prems(4) by simp
  have m: "is_method_retryable (r\<lparr>total := total r - 1\<rparr>) (http_method req)"
    using Suc.prems(2) by (simp add: is_method_retryable_def)
  have f: "status_code (reply a) \<in> set (status_forcelist (r\<lparr>total := total r - 1\<rparr>))"
    using Suc.prems(3) by simp
  have again: "urlopen serve r req w =
           urlopen serve (r\<lparr>total := total r - 1\<rparr>) req
             \<lparr>exchanges = exchanges w @ [req], service = s'\<rparr>"
    using s retry more by (intro urlopen_again) auto
  from Suc.IH [OF Suc.prems(1) m f k, of "\<lparr>exchanges = exchanges w @ [req], service = s'\<rparr>"]
    again
  show ?case by (simp add: replicate_append_same)
qed

lemma ascii_upper_idem: "ascii_upper (ascii_upper c) = ascii_upper c"
  by (auto simp: ascii_upper_def)

lemma str_upper_idem: "str_upper (str_upper m) = str_upper m"
  by (simp add: str_upper_def ascii_upper_idem)

lemma served_once:
  assumes "\<not> is_retry retries (http_method req) (status_code (reply (answer req)))
               (retry_after (answer req))"
  shows "urlopen (\<lambda>q s. (answer q, s)) retries req w =
           (Inr (reply (answer req)), \<lparr>exchanges = exchanges w @ [req], service = service w\<rparr>)"
  using assms by (intro urlopen_not_retried) auto

lemma served_exhausted:
  assumes "is_retry retries (http_method req) (status_code (reply (answer req)))
             (retry_after (answer req))"
    and "total retries - 1 < 0"
  shows "urlopen (\<lambda>q s. (answer q, s)) retries req w =
           (Inl (RetryError (status_code (reply (answer req)))),
            \<lparr>exchanges = exchanges w @ [req], service = service w\<rparr>)"
  using assms by (intro urlopen_exhausted) auto

lemma served_again:
  assumes "is_retry retries (http_method req) (status_code (reply (answer req)))
             (retry_after (answer req))"
    and "\<not> total retries - 1 < 0"
  shows "urlopen (\<lambda>q s. (answer q, s)) retries req w =
           urlopen (\<lambda>q s. (answer q, s)) (retries\<lparr>total := total retries - 1\<rparr>) req
             \<lparr>exchanges = exchanges w @ [req], service = service w\<rparr>"
  using assms by (intro urlopen_again) auto

lemmas session_eval =
  served_runtime_def requests_transport_def health_url_def str_upper_def ascii_upper_def
  is_retry_def is_method_retryable_def retry_strategy_def json_answer_def
  plain_answer_def RETRY_AFTER_STATUS_CODES_def default_max_retries_def Let_def
  canned_get_adapter [of "''health''", simplified]
  canned_get_adapter [of "''validate/openapi''", simplified]
  canned_client_fields lstrip_def fresh_wire_def raise_for_status_def

lemmas session_run = served_once served_exhausted served_again

lemmas text_eval =
  canned_runtime_def http_error_text_def status_text_def reason_phrase_def failure_text_def




subsection \<open>An error body that is JSON but no object\<close>

text \<open>
  Claim C10. The re-raise branch is indeed never taken (\<open>reraise_unreachable\<close>), but not
  every failure of \<^verbatim>\<open>_make_request\<close> is a \<^verbatim>\<open>ValueError\<close>. A \<^verbatim>\<open>POST\<close> answered by
  400 (a status the session does not retry) with the JSON array \<^verbatim>\<open>[]\<close> as body reaches
  the handler, the body parses, \<^verbatim>\<open>error_data.get\<close> raises \<^verbatim>\<open>AttributeError\<close>, and the
  inner \<^verbatim>\<open>except\<close> catches only \<^verbatim>\<open>JSONDecodeError\<close> and \<^verbatim>\<open>KeyError\<close>: the
  \<^verbatim>\<open>AttributeError\<close> leaves the helper.
\<close>

theorem non_object_error_body_escapes:
  "fst (make_request (served_runtime (json_answer 400 ''[]'' (JList []))) canned_client
          ''POST'' ''/validate/openapi'' (Some (JObj [(''specification'', JObj [])])) fresh_wire) =
     Inl AttributeError
   \<and> \<not> is_ValueError AttributeError"
  by (simp add: make_request_def session_request_def handle_HTTPError_def
        session_eval session_run)

subsection \<open>The retry policy\<close>

lemma is_retry_configured:
  "is_retry (retry_strategy mr) m s ra \<longleftrightarrow>
     str_upper m \<in> set [''HEAD'', ''GET'', ''PUT'', ''DELETE'', ''OPTIONS'', ''TRACE'', ''POST'']
     \<and> (s \<in> set [429, 500, 502, 503, 504] \<or> (mr \<noteq> 0 \<and> ra \<and> s = 413))"
  by (auto simp: is_retry_def is_method_retryable_def retry_strategy_def
        RETRY_AFTER_STATUS_CODES_def)

lemma make_request_transport:
  "make_request rt self m e body n =
     (case transport rt (session self)
             \<lparr>http_method = m, url = urljoin rt (base_url self @ ''/'') (lstrip CHR ''/'' e),
              timeout = OpenAPIAgentsClient.timeout self, json = body\<rparr> (remote n) of
        (RequestException msg, s') \<Rightarrow> (Inl (ValueError (''Request failed: '' @ msg)), 
            \<lparr>sent = sent n @ [\<lparr>http_method = m,
                 url = urljoin rt (base_url self @ ''/'') (lstrip CHR ''/'' e),
                 timeout = OpenAPIAgentsClient.timeout self, json = body\<rparr>], remote = s'\<rparr>)
      | (Response r, s') \<Rightarrow>
          (if raise_for_status r then Inl (handle_HTTPError rt r)
           else (case response.json r of None \<Rightarrow> Inl JSONDecodeError | Some v \<Rightarrow> Inr v),
           \<lparr>sent = sent n @ [\<lparr>http_method = m,
                 url = urljoin rt (base_url self @ ''/'') (lstrip CHR ''/'' e),
                 timeout = OpenAPIAgentsClient.timeout self, json = body\<rparr>], remote = s'\<rparr>))"
  by (simp add: make_request_def session_request_def Let_def
        split: prod.splits outcome.splits option.splits)

text \<open>
  Claim C5, as the code has it. For every \<open>max_retries\<close>, the session the constructor
  builds sends a request through an adapter whose policy retries an answer exactly when
  the method is one of \<^verbatim>\<open>HEAD\<close>, \<^verbatim>\<open>GET\<close>, \<^verbatim>\<open>PUT\<close>, \<^verbatim>\<open>DELETE\<close>,
  \<^verbatim>\<open>OPTIONS\<close>, \<^verbatim>\<open>TRACE\<close>, \<^verbatim>\<open>POST\<close> and the status is 429, 500, 502, 503 or 504,
  or 413 with a \<^verbatim>\<open>Retry-After\<close> header while \<open>max_retries\<close> is not zero. When the
  service keeps answering a listed method with one of the five statuses, the request goes
  out once and is then retried \<open>max_retries\<close> times, after which the error surfaces as
  \<^verbatim>\<open>ValueError("Request failed: ...")\<close>. An answer the policy does not retry goes out
  once and reaches the status check of the request helper.
\<close>

theorem retries_before_error:
  assumes "self = init k b t mr"
    and "req = \<lparr>http_method = str_upper m,
                 url = urljoin rt (base_url self @ ''/'') (lstrip CHR ''/'' e),
                 timeout = OpenAPIAgentsClient.timeout self, json = body\<rparr>"
    and "transport rt = requests_transport describe serve"
    and "\<forall>q s. fst (serve q s) = a"
    and "startswith (str_lower (url req)) ''https://'' \<or> startswith (str_lower (url req)) ''http://''"
  shows "get_adapter (session self) (url req) = Some \<lparr>max_retries = retry_strategy mr\<rparr>
       \<and> (is_retry (retry_strategy mr) m' s ra \<longleftrightarrow>
            str_upper m' \<in> set [''HEAD'', ''GET'', ''PUT'', ''DELETE'', ''OPTIONS'', ''TRACE'', ''POST'']
            \<and> (s \<in> set [429, 500, 502, 503, 504] \<or> (mr \<noteq> 0 \<and> ra \<and> s = 413)))
       \<and> (str_upper m \<in> set [''HEAD'', ''GET'', ''PUT'', ''DELETE'', ''OPTIONS'', ''TRACE'', ''POST'']
            \<and> status_code (reply a) \<in> set [429, 500, 502, 503, 504] \<longrightarrow>
              fst (make_request rt self m e body n) =
                Inl (ValueError (''Request failed: ''
                       @ describe req (RetryError (status_code (reply a)))))
            \<and> exchanges (remote (snd (make_request rt self m e body n))) =
                exchanges (remote n) @ replicate (nat mr + 1) req)
       \<and> (\<not> is_retry (retry_strategy mr) m (status_code (reply a)) (retry_after a) \<longrightarrow>
              fst (make_request rt self m e body n) =
                (if raise_for_status (reply a) then Inl (handle_HTTPError rt (reply a))
                 else case response.json (reply a) of
                        None \<Rightarrow> Inl JSONDecodeError | Some v \<Rightarrow> Inr v)
            \<and> exchanges (remote (snd (make_request rt self m e body n))) =
                exchanges (remote n) @ [req])"
proof -
  let ?call = "\<lparr>http_method = m,
                 url = urljoin rt (base_url self @ ''/'') (lstrip CHR ''/'' e),
                 timeout = OpenAPIAgentsClient.timeout self, json = body\<rparr>"
  have prepared: "?call\<lparr>http_method := str_upper (http_method ?call)\<rparr> = req"
    using assms(2) by simp
  have ad: "get_adapter (session self) (url req) = Some \<lparr>max_retries = retry_strategy mr\<rparr>"
    using assms(1,5) by (simp add: get_adapter_init)
  have ad': "get_adapter (session self) (url ?call) = Some \<lparr>max_retries = retry_strategy mr\<rparr>"
    using ad assms(2) by simp
  have tr: "transport rt (session self) ?call (remote n) =
              (case urlopen serve (retry_strategy mr) req (remote n) of
                 (Inr r, w') \<Rightarrow> (Response r, w')
               | (Inl failure, w') \<Rightarrow> (RequestException (describe req failure), w'))"
    unfolding assms(3) requests_transport_def Let_def prepared ad [unfolded assms(2), simplified]
    using ad' prepared by (simp add: assms(2))
  show ?thesis
  proof (intro conjI impI)
    show "get_adapter (session self) (url req) = Some \<lparr>max_retries = retry_strategy mr\<rparr>"
      by (rule ad)
  next
    show "is_retry (retry_strategy mr) m' s ra \<longleftrightarrow>
            str_upper m' \<in> set [''HEAD'', ''GET'', ''PUT'', ''DELETE'', ''OPTIONS'', ''TRACE'', ''POST'']
            \<and> (s \<in> set [429, 500, 502, 503, 504] \<or> (mr \<noteq> 0 \<and> ra \<and> s = 413))"
      by (rule is_retry_configured)
  next
    assume f: "str_upper m \<in> set [''HEAD'', ''GET'', ''PUT'', ''DELETE'', ''OPTIONS'', ''TRACE'', ''POST'']
            \<and> status_code (reply a) \<in> set [429, 500, 502, 503, 504]"
    have mth: "is_method_retryable (retry_strategy mr) (http_method req)"
      using f assms(2) by (simp add: is_method_retryable_def retry_strategy_def str_upper_idem)
    have st: "status_code (reply a) \<in> set (status_forcelist (retry_strategy mr))"
      using f by (simp add: retry_strategy_def)
    have tot: "nat (total (retry_strategy mr)) = nat mr"
      by (simp add: retry_strategy_def)
    from urlopen_forced [OF assms(4) mth st tot, of "remote n"]
    have u: "fst (urlopen serve (retry_strategy mr) req (remote n)) =
               Inl (RetryError (status_code (reply a)))"
      and x: "exchanges (snd (urlopen serve (retry_strategy mr) req (remote n))) =
               exchanges (remote n) @ replicate (nat mr + 1) req"
      by simp_all
    obtain w' where w': "urlopen serve (retry_strategy mr) req (remote n) =
               (Inl (RetryError (status_code (reply a))), w')"
      using u by (cases "urlopen serve (retry_strategy mr) req (remote n)") auto
    show "fst (make_request rt self m e body n) =
            Inl (ValueError (''Request failed: ''
                   @ describe req (RetryError (status_code (reply a)))))"
      by (simp add: make_request_transport tr w')
    show "exchanges (remote (snd (make_request rt self m e body n))) =
            exchanges (remote n) @ replicate (nat mr + 1) req"
      using x by (simp add: make_request_transport tr w')
  next
    assume nr: "\<not> is_retry (retry_strategy mr) m (status_code (reply a)) (retry_after a)"
    obtain s' where s: "serve req (service (remote n)) = (a, s')"
      using assms(4) by (metis prod.collapse)
    have nr': "\<not> is_retry (retry_strategy mr) (http_method req) (status_code (reply a))
                 (retry_after a)"
      using nr assms(2) by (simp add: is_retry_configured str_upper_idem)
    have u: "urlopen serve (retry_strategy mr) req (remote n) =
               (Inr (reply a), \<lparr>exchanges = exchanges (remote n) @ [req], service = s'\<rparr>)"
      using s nr' by (intro urlopen_not_retried) auto
    show "fst (make_request rt self m e body n) =
            (if raise_for_status (reply a) then Inl (handle_HTTPError rt (reply a))
             else case response.json (reply a) of
                    None \<Rightarrow> Inl JSONDecodeError | Some v \<Rightarrow> Inr v)"
      by (simp add: make_request_transport tr u)
    show "exchanges (remote (snd (make_request rt self m e body n))) =
            exchanges (remote n) @ [req]"
      by (simp add: make_request_transport tr u)
  qed
qed

theorem retries_before_error_witness:
  "fst (make_request (served_runtime (plain_answer 503 ''down'')) canned_client
          ''POST'' ''/validate/openapi'' (Some (JObj [(''specification'', JObj [])])) fresh_wire) =
     Inl (ValueError (''Request failed: Max retries exceeded with url: ''
            @ ''https://api.openapi-ai-agents.org/v1/validate/openapi''
            @ '' (Caused by ResponseError(too many 503 error responses))''))
   \<and> exchanges (remote (snd (make_request (served_runtime (plain_answer 503 ''down''))
          canned_client ''POST'' ''/validate/openapi''
          (Some (JObj [(''specification'', JObj [])])) fresh_wire))) =
     replicate 4
       \<lparr>http_method = ''POST'',
        url = ''https://api.openapi-ai-agents.org/v1/validate/openapi'',
        timeout = 30, json = Some (JObj [(''specification'', JObj [])])\<rparr>
   \<and> exchanges (remote (snd (make_request (served_runtime (plain_answer 404 ''gone''))
          canned_client ''GET'' ''/health'' None fresh_wire))) =
     [\<lparr>http_method = ''GET'', url = ''https://api.openapi-ai-agents.org/v1/health'',
       timeout = 30, json = None\<rparr>]"
proof -
  have c: "canned_client = init ''secret'' default_base_url default_timeout default_max_retries"
    by (simp add: canned_client_def)
  have r1: "\<lparr>http_method = ''POST'',
             url = ''https://api.openapi-ai-agents.org/v1/validate/openapi'',
             timeout = 30, json = Some (JObj [(''specification'', JObj [])])\<rparr> =
           \<lparr>http_method = str_upper ''POST'',
             url = urljoin (served_runtime (plain_answer 503 ''down''))
                     (base_url canned_client @ ''/'') (lstrip CHR ''/'' ''/validate/openapi''),
             timeout = OpenAPIAgentsClient.timeout canned_client,
             json = Some (JObj [(''specification'', JObj [])])\<rparr>"
    by (simp add: served_runtime_def canned_client_fields lstrip_def str_upper_def
          ascii_upper_def)
  have r2: "\<lparr>http_method = ''GET'', url = ''https://api.openapi-ai-agents.org/v1/health'',
             timeout = 30, json = None\<rparr> =
           \<lparr>http_method = str_upper ''GET'',
             url = urljoin (served_runtime (plain_answer 404 ''gone''))
                     (base_url canned_client @ ''/'') (lstrip CHR ''/'' ''/health''),
             timeout = OpenAPIAgentsClient.timeout canned_client, json = None\<rparr>"
    by (simp add: served_runtime_def canned_client_fields lstrip_def str_upper_def
          ascii_upper_def)
  have t1: "transport (served_runtime (plain_answer 503 ''down'')) =
              requests_transport failure_text (\<lambda>req s. (plain_answer 503 ''down'' req, s))"
    and t2: "transport (served_runtime (plain_answer 404 ''gone'')) =
              requests_transport failure_text (\<lambda>req s. (plain_answer 404 ''gone'' req, s))"
    by (simp_all add: served_runtime_def)
  have a1: "\<forall>q s. fst (plain_answer 503 ''down'' q, s) = plain_answer 503 ''down'' q0"
    and a2: "\<forall>q s. fst (plain_answer 404 ''gone'' q, s) = plain_answer 404 ''gone'' q0"
    by (simp_all add: plain_answer_def)
  have u1: "startswith (str_lower (url \<lparr>http_method = ''POST'',
             url = ''https://api.openapi-ai-agents.org/v1/validate/openapi'',
             timeout = 30, json = Some (JObj [(''specification'', JObj [])])\<rparr>)) ''https://''
          \<or> startswith (str_lower (url \<lparr>http_method = ''POST'',
             url = ''https://api.openapi-ai-agents.org/v1/validate/openapi'',
             timeout = 30, json = Some (JObj [(''specification'', JObj [])])\<rparr>)) ''http://''"
    and u2: "startswith (str_lower (url \<lparr>http_method = ''GET'',
             url = ''https://api.openapi-ai-agents.org/v1/health'',
             timeout = 30, json = None\<rparr>)) ''https://''
          \<or> startswith (str_lower (url \<lparr>http_method = ''GET'',
             url = ''https://api.openapi-ai-agents.org/v1/health'',
             timeout = 30, json = None\<rparr>)) ''http://''"
    by (simp_all add: startswith_def str_lower_def ascii_lower_def)
  from retries_before_error [OF c r1 t1 a1 u1, of "''POST''" 503 False fresh_wire]
    retries_before_error [OF c r2 t2 a2 u2, of "''GET''" 404 False fresh_wire]
  show ?thesis
    by (simp add: plain_answer_def str_upper_def ascii_upper_def fresh_wire_def
          default_max_retries_def failure_text_def status_text_def is_retry_def
          is_method_retryable_def retry_strategy_def RETRY_AFTER_STATUS_CODES_def)
qed

text \<open>
  The policy does not retry every method, and it retries one more status. A \<^verbatim>\<open>PATCH\<close>
  through the same session that is answered by 503 goes out once and its error is
  classified by status; a \<^verbatim>\<open>POST\<close> answered by 413 with a \<^verbatim>\<open>Retry-After\<close> header
  goes out four times under the default of three retries.
\<close>

theorem retries_before_error_counterexample:
  "exchanges (remote (snd (make_request (served_runtime (plain_answer 503 ''down''))
          canned_client ''PATCH'' ''/health'' None fresh_wire))) =
     [\<lparr>http_method = ''PATCH'', url = ''https://api.openapi-ai-agents.org/v1/health'',
       timeout = 30, json = None\<rparr>]
   \<and> fst (make_request (served_runtime (plain_answer 503 ''down''))
          canned_client ''PATCH'' ''/health'' None fresh_wire) =
     Inl (ValueError ''HTTP 503: down'')
   \<and> exchanges (remote (snd (make_request (served_runtime (busy_answer 413 ''too large''))
          canned_client ''POST'' ''/validate/openapi''
          (Some (JObj [(''specification'', JObj [])])) fresh_wire))) =
     replicate 4
       \<lparr>http_method = ''POST'',
        url = ''https://api.openapi-ai-agents.org/v1/validate/openapi'',
        timeout = 30, json = Some (JObj [(''specification'', JObj [])])\<rparr>
   \<and> fst (make_request (served_runtime (busy_answer 413 ''too large''))
          canned_client ''POST'' ''/validate/openapi''
          (Some (JObj [(''specification'', JObj [])])) fresh_wire) =
     Inl (ValueError ''HTTP 413: too large'')"
  by (simp add: make_request_transport handle_HTTPError_def busy_answer_def
        session_eval session_run text_eval eval_nat_numeral)

end
